theory Spec2Isabelle
  imports Complex_Main "HOL-Library.Sublist"
begin

section \<open>JavaScript strings and arrays\<close>

text \<open>
  A JavaScript string is a sequence of UTF-16 code units; \<open>length\<close>, \<open>slice\<close> and
  \<open>includes\<close> count and compare code units. The model writes a string as a \<^typ>\<open>string\<close>
  and reads one \<^typ>\<open>char\<close> as one code unit, so it covers the strings whose code units
  are below 256 (ASCII and Latin-1). The fixed suggestion texts of the error handler begin
  with pictographs outside that range; those prefixes are spelled \<open><U+XXXX>\<close> in the
  literals below. Nothing in the program inspects them.
\<close>

text \<open>
  \<open>String.prototype.toLowerCase\<close>, on code units below 256: the letters A-Z and the
  Latin-1 capitals (192-222 except the multiplication sign 215) move up by 32; every
  other code unit stays.
\<close>

definition toLowerChar :: "char \<Rightarrow> char" where
  "toLowerChar c =
     (let n = (of_char c :: nat)
      in if (65 \<le> n \<and> n \<le> 90) \<or> (192 \<le> n \<and> n \<le> 222 \<and> n \<noteq> 215)
         then char_of (n + 32) else c)"

definition toLowerCase :: "string \<Rightarrow> string" where
  "toLowerCase s = map toLowerChar s"

text \<open>\<open>s.includes(needle)\<close>: the needle occurs in \<open>s\<close> as a contiguous run.\<close>

fun includes_str :: "string \<Rightarrow> string \<Rightarrow> bool" where
  "includes_str [] needle = (needle = [])"
| "includes_str (c # cs) needle = (prefix needle (c # cs) \<or> includes_str cs needle)"

text \<open>\<open>Array.prototype.join(sep)\<close> on an array of strings.\<close>

fun join :: "string \<Rightarrow> string list \<Rightarrow> string" where
  "join sep [] = []"
| "join sep [x] = x"
| "join sep (x # y # ys) = x @ sep @ join sep (y # ys)"

text \<open>
  A non-negative integer printed in decimal, as a template literal prints a number
  (exact for the integers below \<open>2^53\<close>, which JavaScript numbers hold exactly).
\<close>

definition digitChar :: "nat \<Rightarrow> char" where
  "digitChar d = char_of (48 + d)"

fun numberToString :: "nat \<Rightarrow> string" where
  "numberToString n =
     (if n < 10 then [digitChar n] else numberToString (n div 10) @ [digitChar (n mod 10)])"

declare numberToString.simps [simp del]

section \<open>types.ts\<close>

datatype modelType = standard | advanced

record GeminiConfig =
  model :: string
  apiKey :: string
  modelType :: modelType
  enableAdvancedFeatures :: "bool option"

record FileInfo =
  path :: string
  content :: string
  size_bytes :: nat
  extension :: string

section \<open>quota-checker.ts\<close>

text \<open>
  \<open>estimateTokenUsage\<close>: the \<open>reduce\<close> is a left fold from 0; \<open>Math.ceil(x / 4)\<close> is the
  ceiling of the exact quotient.
\<close>

definition totalChars :: "FileInfo list \<Rightarrow> nat" where
  "totalChars files = foldl (\<lambda>sum file. sum + min (length (content file)) 2000) 0 files"

definition promptOverhead :: nat where
  "promptOverhead = 1000"

definition estimateTokenUsage :: "FileInfo list \<Rightarrow> int" where
  "estimateTokenUsage files = \<lceil>real (totalChars files + promptOverhead) / 4\<rceil>"

section \<open>analyzer.ts: the prompt builder\<close>

text \<open>
  \<open>createAnalysisPrompt\<close>. The method chain \<open>filter\<close>, \<open>slice(0, maxFiles)\<close>, \<open>map\<close>,
  \<open>join\<close> is kept stage by stage: \<open>promptFiles\<close> is the array after \<open>slice\<close>, \<open>fileBlock\<close>
  the function under \<open>map\<close>, \<open>fileList\<close> the joined text.
\<close>

definition maxFiles :: "GeminiConfig \<Rightarrow> nat" where
  "maxFiles config = (if modelType config = advanced then 20 else 12)"

definition maxContentLength :: "GeminiConfig \<Rightarrow> nat" where
  "maxContentLength config = (if modelType config = advanced then 2000 else 1200)"

definition promptFiles :: "FileInfo list \<Rightarrow> GeminiConfig \<Rightarrow> FileInfo list" where
  "promptFiles files config = take (maxFiles config) (filter (\<lambda>f. size_bytes f < 30000) files)"

definition truncated :: "GeminiConfig \<Rightarrow> FileInfo \<Rightarrow> string" where
  "truncated config f =
     (if length (content f) > maxContentLength config then ''\<newline>... (truncated)'' else [])"

definition fileBlock :: "GeminiConfig \<Rightarrow> FileInfo \<Rightarrow> string" where
  "fileBlock config f =
     ''File: '' @ path f @ ''\<newline>Content:\<newline>''
       @ take (maxContentLength config) (content f) @ truncated config f @ ''\<newline>---\<newline>''"

definition fileList :: "FileInfo list \<Rightarrow> GeminiConfig \<Rightarrow> string" where
  "fileList files config = join ''\<newline>'' (map (fileBlock config) (promptFiles files config))"

definition promptIntro :: string where
  "promptIntro =
     ''\<newline>Analyze this codebase and provide a comprehensive summary. Focus on:\<newline>''
     @ ''\<newline>''
     @ ''1. **Project Purpose**: What does this project do?\<newline>''
     @ ''2. **Technology Stack**: What frameworks, libraries, and tools are used?\<newline>''
     @ ''3. **Key Files**: Identify the most important files and their purposes\<newline>''
     @ ''4. **Architecture**: How is the project structured?\<newline>''
     @ ''5. **Main Features**: What are the core functionalities?\<newline>''
     @ ''\<newline>''"

definition promptRequest :: string where
  "promptRequest =
     ''\<newline>''
     @ ''\<newline>''
     @ ''Please provide a detailed analysis in a structured format that explains:\<newline>''
     @ ''- The overall purpose and goal of this project\<newline>''
     @ ''- The main technologies and frameworks used\<newline>''
     @ ''- The most important files and what they do\<newline>''
     @ ''- The project's architecture and organization\<newline>''
     @ ''- Key features and functionality\<newline>''
     @ ''\<newline>''
     @ ''Be specific and technical, but also accessible to developers who are new to this codebase.\<newline>''"

definition enhancedInstructions :: string where
  "enhancedInstructions =
     ''\<newline>''
     @ ''\<newline>''
     @ ''ENHANCED ANALYSIS MODE:\<newline>''
     @ ''- Provide deeper insights into code patterns and best practices\<newline>''
     @ ''- Identify potential improvements or architectural concerns\<newline>''
     @ ''- Analyze the development workflow and tooling setup\<newline>''
     @ ''- Comment on code quality and maintainability\<newline>''
     @ ''- Suggest areas for optimization or refactoring\<newline>''
     @ ''\<newline>''
     @ ''Keep your response comprehensive and well-structured (aim for 800-1200 words).\<newline>''"

definition conciseInstructions :: string where
  "conciseInstructions =
     ''\<newline>Keep your response concise but informative (aim for 500-700 words).''"

definition createAnalysisPrompt :: "FileInfo list \<Rightarrow> GeminiConfig \<Rightarrow> string" where
  "createAnalysisPrompt files config =
     promptIntro
     @ ''Files to analyze ('' @ numberToString (length files) @ '' total files, showing first ''
     @ numberToString (min (maxFiles config) (length files)) @ ''):\<newline>''
     @ fileList files config
     @ promptRequest
     @ (if modelType config = advanced \<and> enableAdvancedFeatures config = Some True
        then enhancedInstructions else conciseInstructions)"

section \<open>fallback-analyzer.ts\<close>

text \<open>
  The array \<open>techStack\<close> that \<open>generateBasicAnalysis\<close> builds with its seven conditional
  pushes, and \<open>guessProjectType\<close>, which that function calls with the array to fill the
  line \<open>Project appears to be a ... project\<close> of its report. \<open>files.some(p)\<close> is
  \<^const>\<open>list_ex\<close>, \<open>techStack.includes(x)\<close> is \<^const>\<open>List.member\<close>.
\<close>

definition techStack :: "FileInfo list \<Rightarrow> string list" where
  "techStack files =
     (if list_ex (\<lambda>f. includes_str (path f) ''package.json'') files
      then [''Node.js/JavaScript''] else [])
     @ (if list_ex (\<lambda>f. extension f = ''.tsx'' \<or> extension f = ''.jsx'') files
        then [''React''] else [])
     @ (if list_ex (\<lambda>f. extension f = ''.ts'') files then [''TypeScript''] else [])
     @ (if list_ex (\<lambda>f. includes_str (path f) ''next.config'') files then [''Next.js''] else [])
     @ (if list_ex (\<lambda>f. includes_str (path f) ''tailwind'') files then [''Tailwind CSS''] else [])
     @ (if list_ex (\<lambda>f. extension f = ''.py'') files then [''Python''] else [])
     @ (if list_ex (\<lambda>f. extension f = ''.go'') files then [''Go''] else [])"

definition guessProjectType :: "FileInfo list \<Rightarrow> string list \<Rightarrow> string" where
  "guessProjectType files stack =
     (if List.member stack ''Next.js'' then ''Next.js web application''
      else if List.member stack ''React'' then ''React application''
      else if list_ex (\<lambda>f. includes_str (path f) ''package.json'') files then ''Node.js application''
      else if List.member stack ''Python'' then ''Python application''
      else if List.member stack ''Go'' then ''Go application''
      else ''software'')"

definition projectTypeGuess :: "FileInfo list \<Rightarrow> string" where
  "projectTypeGuess files = guessProjectType files (techStack files)"

section \<open>error-handler.ts\<close>

datatype errorType =
  quota_exceeded | rate_limit | invalid_key | model_unavailable | content_too_large | unknown

record GeminiErrorInfo =
  type :: errorType
  message :: string
  suggestions :: "string list"
  retryAfter :: "nat option"

subsection \<open>The retry-delay pattern\<close>

text \<open>
  \<open>errorMessage.match(/retrydelay['":][\s]*['"]*(\d+)s/i)\<close>: the leftmost match, and
  its group 1. Below 256, \<open>\s\<close> is tab, line feed, vertical tab, form feed, carriage
  return, space and the no-break space 160; \<open>\d\<close> is 0-9; under the flag \<open>i\<close> a letter of
  the pattern matches its two ASCII cases and nothing else.

  The three starred or plussed classes (white space, quotes, digits) and the final
  \<open>s\<close> are pairwise disjoint, and each is followed in the pattern by something that none
  of its own characters can start. A greedy run that gave back a character would
  therefore fail at once, so the backtracking matcher succeeds at a position exactly
  when the longest runs do; \<open>retryDelayAt\<close> takes the longest runs.
\<close>

definition isWhiteSpace :: "char \<Rightarrow> bool" where
  "isWhiteSpace c = ((of_char c :: nat) \<in> {9, 10, 11, 12, 13, 32, 160})"

definition isQuote :: "char \<Rightarrow> bool" where
  "isQuote c = (c = CHR 0x27 \<or> c = CHR 0x22)"

definition isDigit :: "char \<Rightarrow> bool" where
  "isDigit c = (48 \<le> (of_char c :: nat) \<and> (of_char c :: nat) \<le> 57)"

text \<open>The pattern tried at the start of \<open>s\<close>; the result is the text of group 1.\<close>

definition retryDelayAt :: "string \<Rightarrow> string option" where
  "retryDelayAt s =
     (if toLowerCase (take 10 s) = ''retrydelay'' then
        (case drop 10 s of
           [] \<Rightarrow> None
         | c # rest \<Rightarrow>
             if isQuote c \<or> c = CHR '':'' then
               (let afterSpace = dropWhile isWhiteSpace rest;
                    afterQuotes = dropWhile isQuote afterSpace;
                    digits = takeWhile isDigit afterQuotes
                in case dropWhile isDigit afterQuotes of
                     [] \<Rightarrow> None
                   | e # _ \<Rightarrow>
                       if digits \<noteq> [] \<and> toLowerChar e = CHR ''s'' then Some digits else None)
             else None)
      else None)"

text \<open>\<open>match\<close> without the flag \<open>g\<close>: the first position, from the left, where the pattern matches.\<close>

fun retryMatch :: "string \<Rightarrow> string option" where
  "retryMatch [] = None"
| "retryMatch (c # cs) =
     (case retryDelayAt (c # cs) of Some digits \<Rightarrow> Some digits | None \<Rightarrow> retryMatch cs)"

text \<open>
  \<open>Number.parseInt(digits, 10)\<close> on a non-empty run of decimal digits (exact below
  \<open>2^53\<close>).
\<close>

definition parseInt :: "string \<Rightarrow> nat" where
  "parseInt digits = foldl (\<lambda>acc d. acc * 10 + ((of_char d :: nat) - 48)) 0 digits"

subsection \<open>The classifier\<close>

definition parseQuotaError :: "string \<Rightarrow> GeminiErrorInfo" where
  "parseQuotaError errorMessage =
     (let freeTier = includes_str errorMessage ''free_tier'';
          specificMessage =
            (if freeTier then ''You have exceeded your free tier quota limits''
             else ''You have exceeded your API quota limits'');
          tierSuggestions =
            (if freeTier then
               [''<U+1F193> You're using the FREE tier of Gemini API'']
               @ (if includes_str errorMessage ''input_token_count''
                  then [''<U+1F4CA> Too many input tokens used (text sent to AI)'',
                        ''<U+1F4A1> Try analyzing smaller files or fewer files at once'']
                  else [])
               @ (if includes_str errorMessage ''requests''
                  then [''<U+1F504> Too many requests made to the API'']
                       @ (if includes_str errorMessage ''PerMinute''
                          then [''<U+23F1><U+FE0F>  Free tier: 15 requests per minute limit'',
                                ''<U+23F3> Wait 1-2 minutes before trying again'']
                          else [])
                       @ (if includes_str errorMessage ''PerDay''
                          then [''<U+1F4C5> Free tier: 1,500 requests per day limit'',
                                ''<U+1F305> Wait until tomorrow or upgrade to paid plan'']
                          else [])
                  else [])
               @ [''<U+1F4B3> Consider upgrading to a paid plan for higher limits'',
                  ''<U+1F517> Billing info: https://console.cloud.google.com/billing'']
             else
               [''<U+1F4B3> Check your billing and payment details'',
                ''<U+1F4C8> You may need to increase your quota limits'']);
          retryAfter = map_option parseInt (retryMatch errorMessage);
          retrySuggestion =
            (case retryAfter of
               None \<Rightarrow> []
             | Some n \<Rightarrow> [''<U+23F0> Suggested retry time: '' @ numberToString n @ '' seconds''])
      in \<lparr> type = quota_exceeded,
           message = specificMessage,
           suggestions = tierSuggestions @ retrySuggestion,
           retryAfter = retryAfter \<rparr>)"

definition parseRateLimitError :: "string \<Rightarrow> GeminiErrorInfo" where
  "parseRateLimitError errorMessage =
     \<lparr> type = rate_limit,
       message =
         (if includes_str errorMessage ''requests per minute''
          then ''Too many requests per minute'' else ''Rate limit exceeded''),
       suggestions =
         (if includes_str errorMessage ''requests per minute''
          then [''<U+23F1><U+FE0F>  You're making requests too quickly'',
                ''<U+23F3> Wait 1-2 minutes before trying again'']
          else [])
         @ (if includes_str errorMessage ''quota metric''
            then [''<U+1F4CA> API quota limits reached'',
                  ''<U+1F4A1> Try using a lighter model like gemini-1.5-flash'']
            else [])
         @ [''<U+1F504> The system will automatically retry with delays''],
       retryAfter = None \<rparr>"

text \<open>
  \<open>parseGeminiError\<close> reads nothing of its argument but \<open>error.message\<close>, which is the
  argument here.
\<close>

definition parseGeminiError :: "string \<Rightarrow> GeminiErrorInfo" where
  "parseGeminiError msg =
     (let errorMessage = toLowerCase msg
      in if includes_str errorMessage ''exceeded your current quota''
            \<or> includes_str errorMessage ''quotafailure''
         then parseQuotaError msg
         else if includes_str errorMessage ''429'' \<and> includes_str errorMessage ''rate_limit_exceeded''
         then parseRateLimitError msg
         else if includes_str errorMessage ''401'' \<or> includes_str errorMessage ''api_key''
         then \<lparr> type = invalid_key,
                message = ''Invalid or missing API key'',
                suggestions =
                  [''Check that your API key is correct'',
                   ''Ensure your API key has the necessary permissions'',
                   ''Get a new API key at: https://makersuite.google.com/app/apikey''],
                retryAfter = None \<rparr>
         else if includes_str errorMessage ''400'' \<or> includes_str errorMessage ''content''
         then \<lparr> type = content_too_large,
                message = ''Request content is too large or malformed'',
                suggestions =
                  [''Try analyzing a smaller repository'',
                   ''Reduce the number of files being analyzed'',
                   ''Use a different model that supports larger inputs''],
                retryAfter = None \<rparr>
         else if includes_str errorMessage ''model'' \<and> includes_str errorMessage ''not found''
         then \<lparr> type = model_unavailable,
                message = ''The selected model is not available'',
                suggestions =
                  [''Try a different model like gemini-1.5-flash'',
                   ''Check if the model name is correct'',
                   ''Some models may not be available in your region''],
                retryAfter = None \<rparr>
         else \<lparr> type = unknown,
                message = msg,
                suggestions =
                  [''Try again in a few minutes'',
                   ''Check your internet connection'',
                   ''Contact support if the issue persists''],
                retryAfter = None \<rparr>)"

section \<open>Thrown values\<close>

text \<open>
  What a \<open>throw\<close> can carry: an \<open>Error\<close> object with its \<open>name\<close> and \<open>message\<close>, an instance
  of the class \<open>UserExitError\<close> of analyzer.ts (an \<open>Error\<close> whose constructor sets the name
  to \<open>UserExitError\<close>), or a value that is not an \<open>Error\<close> at all.
\<close>

datatype exn = Error string string | UserExitError string | NonError

fun instanceofError :: "exn \<Rightarrow> bool" where
  "instanceofError (Error n m) = True"
| "instanceofError (UserExitError m) = True"
| "instanceofError NonError = False"

fun instanceofUserExitError :: "exn \<Rightarrow> bool" where
  "instanceofUserExitError (UserExitError m) = True"
| "instanceofUserExitError e = False"

fun errorMessage :: "exn \<Rightarrow> string" where
  "errorMessage (Error n m) = m"
| "errorMessage (UserExitError m) = m"
| "errorMessage NonError = []"

fun errorName :: "exn \<Rightarrow> string" where
  "errorName (Error n m) = n"
| "errorName (UserExitError m) = ''UserExitError''"
| "errorName NonError = []"

section \<open>scanner.ts\<close>

text \<open>
  The scanner's input is what the file system answers: the paths \<open>glob\<close> returned, in
  its order, and for each of them the result of \<open>fs.stat\<close> (the size, or the error it
  throws), of \<open>path.extname\<close>, and of \<open>fs.readFile\<close> (\<open>None\<close> when it throws).
\<close>

record dirent =
  filePath :: string
  stat :: "exn + nat"
  extname :: string
  readFile :: "string option"

definition IMPORTANT_EXTENSIONS :: "string list" where
  "IMPORTANT_EXTENSIONS =
     [''.js'', ''.ts'', ''.jsx'', ''.tsx'', ''.vue'', ''.py'', ''.go'', ''.rs'', ''.java'',
      ''.json'', ''.md'', ''.yml'', ''.yaml'', ''.toml'', ''.config.js'', ''.config.ts'']"

definition isImportant :: "string \<Rightarrow> string \<Rightarrow> bool" where
  "isImportant fpath ext =
     (List.member IMPORTANT_EXTENSIONS ext
      \<or> includes_str fpath ''package.json''
      \<or> includes_str fpath ''README''
      \<or> includes_str fpath ''config'')"

text \<open>The \<open>for\<close> loop over \<open>allFiles\<close>; \<open>files\<close> is the array it pushes to.\<close>

fun scanLoop :: "dirent list \<Rightarrow> FileInfo list \<Rightarrow> exn + FileInfo list" where
  "scanLoop [] files = Inr files"
| "scanLoop (d # ds) files =
     (case stat d of
        Inl e \<Rightarrow> Inl e
      | Inr sz \<Rightarrow>
          if sz > 1024 * 1024 then scanLoop ds files
          else if isImportant (filePath d) (extname d) \<or> length files < 50 then
            (case readFile d of
               Some text \<Rightarrow>
                 scanLoop ds
                   (files @ [\<lparr> path = filePath d, content = text, size_bytes = sz,
                               extension = extname d \<rparr>])
             | None \<Rightarrow> scanLoop ds files)
          else scanLoop ds files)"

text \<open>The comparator handed to \<open>files.sort\<close>.\<close>

definition compareFiles :: "FileInfo \<Rightarrow> FileInfo \<Rightarrow> int" where
  "compareFiles a b =
     (let aImportant = List.member IMPORTANT_EXTENSIONS (extension a);
          bImportant = List.member IMPORTANT_EXTENSIONS (extension b)
      in if aImportant \<and> \<not> bImportant then - 1
         else if \<not> aImportant \<and> bImportant then 1
         else int (size_bytes a) - int (size_bytes b))"

text \<open>
  \<open>Array.prototype.sort\<close> with a comparator is stable, and with a consistent comparator
  its result is ordered by it; that result is unique, and a stable insertion sort
  computes it.
\<close>

fun insertBy :: "('a \<Rightarrow> 'a \<Rightarrow> int) \<Rightarrow> 'a \<Rightarrow> 'a list \<Rightarrow> 'a list" where
  "insertBy cmp x [] = [x]"
| "insertBy cmp x (y # ys) = (if cmp x y \<le> 0 then x # y # ys else y # insertBy cmp x ys)"

definition sortBy :: "('a \<Rightarrow> 'a \<Rightarrow> int) \<Rightarrow> 'a list \<Rightarrow> 'a list" where
  "sortBy cmp xs = foldr (insertBy cmp) xs []"

definition scanRepository :: "dirent list \<Rightarrow> exn + FileInfo list" where
  "scanRepository allFiles =
     (case scanLoop allFiles [] of
        Inl e \<Rightarrow> Inl e
      | Inr files \<Rightarrow> Inr (sortBy compareFiles files))"

section \<open>analyzer.ts and index.ts: the run\<close>

text \<open>
  Of the report, the model keeps the analysis text, the number of files and the name of
  the model, which \<open>generateReport\<close> copies from its arguments. No step of the run reads a
  field of the report. Console output (the spinner, \<open>displayError\<close>, the text of the
  countdown) is left out as well.
\<close>

record ProjectReport =
  geminiSummary :: string
  totalFiles :: nat
  modelUsed :: string

definition generateReport :: "FileInfo list \<Rightarrow> string \<Rightarrow> string \<Rightarrow> ProjectReport" where
  "generateReport files geminiAnalysis mdl =
     \<lparr> geminiSummary = geminiAnalysis, totalFiles = length files, modelUsed = mdl \<rparr>"

text \<open>
  The collaborators of a run. \<open>gateway config prompt n\<close> is what the \<open>n\<close>-th call (from 0)
  of \<open>client.generateContent(prompt)\<close> does, for a client built from \<open>config\<close>: it
  returns the text or throws. \<open>saveReport\<close>, \<open>startServer\<close> and \<open>ensureOutputDir\<close> throw or
  succeed; \<open>analyzeFallback\<close> and \<open>getGeminiConfig\<close> return their value or throw.
\<close>

record env =
  allFiles :: "dirent list"
  gateway :: "GeminiConfig \<Rightarrow> string \<Rightarrow> nat \<Rightarrow> exn + string"
  saveReport :: "ProjectReport \<Rightarrow> exn option"
  analyzeFallback :: "exn + ProjectReport"
  getGeminiConfig :: "exn + GeminiConfig"
  ensureOutputDir :: "exn option"
  startServer :: "ProjectReport \<Rightarrow> nat \<Rightarrow> exn option"

text \<open>
  What a run does that can be seen from outside, in order: calls of the Gateway, timed
  waits (in milliseconds) and questions to the user. \<open>calls\<close> counts the Gateway calls.
\<close>

datatype event = GatewayCall | Sleep nat | AskAction | AskConfirm | AskPassword

record session =
  calls :: nat
  trace :: "event list"

definition emit :: "event list \<Rightarrow> session \<Rightarrow> session" where
  "emit evs s = s\<lparr> trace := trace s @ evs \<rparr>"

text \<open>
  The user is a script of answers, read in order. A question that the script does not
  answer (it has run out, or its next answer is to another kind of question) is never
  resolved: the run does not return, which is the result \<open>None\<close>.
\<close>

datatype action = fallback | retry | exit

datatype answer = Action action | Confirm bool | Password string

subsection \<open>\<open>generateWithRetry\<close>\<close>

text \<open>
  The \<open>for\<close> loop of \<open>generateWithRetry\<close>, entered with \<open>attempt\<close>; \<open>client\<close> is
  \<open>gateway config\<close>. The wait of the back-off is \<open>Math.pow(2, attempt) * 1000\<close>
  milliseconds.
\<close>

function generateWithRetryFrom ::
  "(string \<Rightarrow> nat \<Rightarrow> exn + string) \<Rightarrow> string \<Rightarrow> nat \<Rightarrow> nat \<Rightarrow> session
     \<Rightarrow> (exn + string) \<times> session"
where
  "generateWithRetryFrom client prompt maxRetries attempt s =
     (if attempt \<le> maxRetries then
        (let s1 = emit [GatewayCall] (s\<lparr> calls := calls s + 1 \<rparr>)
         in case client prompt (calls s) of
              Inr text \<Rightarrow> (Inr text, s1)
            | Inl error \<Rightarrow>
                if attempt = maxRetries then (Inl error, s1)
                else if instanceofError error then
                  (if type (parseGeminiError (errorMessage error)) = rate_limit
                   then generateWithRetryFrom client prompt maxRetries (attempt + 1)
                          (emit [Sleep (2 ^ attempt * 1000)] s1)
                   else (Inl error, s1))
                else (Inl error, s1))
      else (Inl (Error ''Error'' ''Max retries exceeded''), s))"
  by pat_completeness auto
termination
  by (relation "measure (\<lambda>(client, prompt, maxRetries, attempt, s). Suc maxRetries - attempt)") auto

declare generateWithRetryFrom.simps [simp del]

definition generateWithRetry ::
  "(string \<Rightarrow> nat \<Rightarrow> exn + string) \<Rightarrow> string \<Rightarrow> session \<Rightarrow> (exn + string) \<times> session"
where
  "generateWithRetry client prompt s = generateWithRetryFrom client prompt 2 1 s"

subsection \<open>\<open>analyzeRepository\<close>\<close>

text \<open>The \<open>try\<close> block of \<open>analyzeRepository\<close>; it asks the user nothing.\<close>

definition analyzeTry :: "env \<Rightarrow> GeminiConfig \<Rightarrow> session \<Rightarrow> (exn + ProjectReport) \<times> session" where
  "analyzeTry e config s =
     (case scanRepository (allFiles e) of
        Inl error \<Rightarrow> (Inl error, s)
      | Inr files \<Rightarrow>
          (case generateWithRetry (gateway e config) (createAnalysisPrompt files config) s of
             (Inl error, s1) \<Rightarrow> (Inl error, s1)
           | (Inr analysis, s1) \<Rightarrow>
               (let report = generateReport files analysis (model config)
                in case saveReport e report of
                     Some error \<Rightarrow> (Inl error, s1)
                   | None \<Rightarrow> (Inr report, s1))))"

text \<open>\<open>errorInfo.retryAfter || 60\<close>: an absent value and 0 both give 60.\<close>

definition waitTime :: "GeminiErrorInfo \<Rightarrow> nat" where
  "waitTime errorInfo =
     (case retryAfter errorInfo of None \<Rightarrow> 60 | Some n \<Rightarrow> if n = 0 then 60 else n)"

text \<open>
  \<open>analyzeRepository\<close>: the \<open>try\<close> block, then the \<open>catch\<close> clause. The countdown of the
  retry branch waits one second \<open>waitTime\<close> times. A recursive call stands in the
  \<open>catch\<close> clause, so what it throws leaves the outer call as it is.
\<close>

function analyzeRepository ::
  "env \<Rightarrow> GeminiConfig \<Rightarrow> answer list \<Rightarrow> session \<Rightarrow> (exn + ProjectReport) option \<times> session"
where
  "analyzeRepository e config answers s =
     (case analyzeTry e config s of
        (Inr report, s1) \<Rightarrow> (Some (Inr report), s1)
      | (Inl error, s1) \<Rightarrow>
          if instanceofUserExitError error then (Some (Inl error), s1)
          else if instanceofError error then
            (let errorInfo = parseGeminiError (errorMessage error)
             in if type errorInfo = quota_exceeded \<or> type errorInfo = rate_limit then
                  (case answers of
                     Action fallback # rest \<Rightarrow>
                       (Some (analyzeFallback e), emit [AskAction] s1)
                   | Action retry # rest \<Rightarrow>
                       analyzeRepository e config rest
                         (emit (AskAction # replicate (waitTime errorInfo) (Sleep 1000)) s1)
                   | Action exit # rest \<Rightarrow>
                       (Some (Inl (UserExitError ''User chose to exit'')), emit [AskAction] s1)
                   | _ \<Rightarrow> (None, emit [AskAction] s1))
                else if type errorInfo = invalid_key then
                  (case answers of
                     Confirm True # Password key # rest \<Rightarrow>
                       analyzeRepository e (config\<lparr> apiKey := key \<rparr>) rest
                         (emit [AskConfirm, AskPassword] s1)
                   | Confirm True # _ \<Rightarrow> (None, emit [AskConfirm, AskPassword] s1)
                   | Confirm False # rest \<Rightarrow>
                       (Some (Inl (UserExitError ''User chose not to provide new API key'')),
                        emit [AskConfirm] s1)
                   | _ \<Rightarrow> (None, emit [AskConfirm] s1))
                else (Some (Inl error), s1))
          else (Some (Inl error), s1))"
  by pat_completeness auto
termination
  by (relation "measure (\<lambda>(e, config, answers, s). length answers)") auto

declare analyzeRepository.simps [simp del]

subsection \<open>\<open>handleAnalysis\<close>\<close>

datatype ending = ProcessExit nat | ServerStarted

text \<open>The \<open>catch\<close> clause of \<open>handleAnalysis\<close>: the status it passes to \<open>process.exit\<close>.\<close>

definition exitCode :: "exn \<Rightarrow> nat" where
  "exitCode error =
     (if instanceofError error \<and> errorName error = ''UserExitError'' then 0 else 1)"

definition handleAnalysis ::
  "env \<Rightarrow> answer list \<Rightarrow> nat \<Rightarrow> session \<Rightarrow> ending option \<times> session"
where
  "handleAnalysis e answers port s =
     (case getGeminiConfig e of
        Inl error \<Rightarrow> (Some (ProcessExit (exitCode error)), s)
      | Inr config \<Rightarrow>
          (case ensureOutputDir e of
             Some error \<Rightarrow> (Some (ProcessExit (exitCode error)), s)
           | None \<Rightarrow>
               (case analyzeRepository e config answers s of
                  (None, s1) \<Rightarrow> (None, s1)
                | (Some (Inl error), s1) \<Rightarrow> (Some (ProcessExit (exitCode error)), s1)
                | (Some (Inr report), s1) \<Rightarrow>
                    (case startServer e report port of
                       Some error \<Rightarrow> (Some (ProcessExit (exitCode error)), s1)
                     | None \<Rightarrow> (Some ServerStarted, s1)))))"

subsection \<open>Scripted collaborators\<close>

text \<open>
  Test doubles for the examples below: an empty directory, a Gateway that answers its
  \<open>n\<close>-th call by \<open>script n\<close> whatever the configuration and the prompt, and collaborators
  that never fail.
\<close>

definition stubConfig :: GeminiConfig where
  "stubConfig = \<lparr> model = ''gemini-1.5-flash'', apiKey = ''key'', modelType = standard,
                  enableAdvancedFeatures = None \<rparr>"

definition stubEnv :: "(nat \<Rightarrow> exn + string) \<Rightarrow> env" where
  "stubEnv script =
     \<lparr> allFiles = [],
       gateway = (\<lambda>config prompt n. script n),
       saveReport = (\<lambda>report. None),
       analyzeFallback =
         Inr \<lparr> geminiSummary = ''basic analysis'', totalFiles = 0, modelUsed = ''fallback-analyzer'' \<rparr>,
       getGeminiConfig = Inr stubConfig,
       ensureOutputDir = None,
       startServer = (\<lambda>report port. None) \<rparr>"

definition freshSession :: session where
  "freshSession = \<lparr> calls = 0, trace = [] \<rparr>"

section \<open>Properties of the string operations\<close>

text \<open>The lower-casing of one code unit, bit by bit; it makes the evaluation of examples fast.\<close>

lemma toLowerChar_Char [code]:
  "toLowerChar (Char b0 b1 b2 b3 b4 b5 b6 b7) =
     (if b6 \<and> \<not> b5
         \<and> (if b7 then \<not> (b0 \<and> b1 \<and> b2 \<and> b4)
             else (b0 \<or> b1 \<or> b2 \<or> b3 \<or> b4) \<and> \<not> (b4 \<and> b3 \<and> (b2 \<or> (b1 \<and> b0))))
      then Char b0 b1 b2 b3 b4 True b6 b7
      else Char b0 b1 b2 b3 b4 b5 b6 b7)"
  by (cases b0; cases b1; cases b2; cases b3; cases b4; cases b5; cases b6; cases b7;
      simp add: toLowerChar_def char_of_def bit_0)

lemma includes_str_sublist: "includes_str s needle = sublist needle s"
  by (induction s) (simp_all add: sublist_Cons_right)

lemma includes_str_iff: "includes_str s needle = (\<exists>ps ss. s = ps @ needle @ ss)"
  by (simp add: includes_str_sublist sublist_def)

lemma includes_str_trans:
  assumes "includes_str s a" and "includes_str a b"
  shows "includes_str s b"
proof -
  from assms obtain ps ss ps' ss' where "s = ps @ a @ ss" and "a = ps' @ b @ ss'"
    unfolding includes_str_iff by blast
  then have "s = (ps @ ps') @ b @ (ss' @ ss)"
    by simp
  then show ?thesis
    unfolding includes_str_iff by blast
qed

lemma includes_str_toLowerCase:
  assumes "includes_str s needle"
  shows "includes_str (toLowerCase s) (toLowerCase needle)"
proof -
  from assms obtain ps ss where "s = ps @ needle @ ss"
    unfolding includes_str_iff by blast
  then have "toLowerCase s = toLowerCase ps @ toLowerCase needle @ toLowerCase ss"
    by (simp add: toLowerCase_def)
  then show ?thesis
    unfolding includes_str_iff by blast
qed

section \<open>Properties of the quota estimator\<close>

lemma foldl_add_min:
  "foldl (\<lambda>sum file. sum + min (length (content file)) (2000::nat)) a files
     = a + sum_list (map (\<lambda>file. min (length (content file)) 2000) files)"
  by (induction files arbitrary: a) simp_all

lemma totalChars_sum:
  "totalChars files = sum_list (map (\<lambda>file. min (length (content file)) 2000) files)"
  by (simp add: totalChars_def foldl_add_min)

lemma estimateTokenUsage_mono:
  "totalChars xs \<le> totalChars ys \<Longrightarrow> estimateTokenUsage xs \<le> estimateTokenUsage ys"
  unfolding estimateTokenUsage_def
  by (intro ceiling_mono divide_right_mono) simp_all

text \<open>
  Claim C9. The estimate of the empty file list is \<open>ceil(1000 / 4) = 250\<close>. Adding a file
  anywhere in the list never lowers the estimate, and neither does replacing a file's
  content by a content at least as long. The estimate is the ceiling of a quarter of the
  1000 characters of overhead plus, for each file, \<open>min(length, 2000)\<close> characters.
\<close>

theorem estimateTokenUsage_empty_monotone:
  "estimateTokenUsage [] = 250
   \<and> estimateTokenUsage (pre @ post) \<le> estimateTokenUsage (pre @ f # post)
   \<and> (length (content f) \<le> length c \<longrightarrow>
        estimateTokenUsage (pre @ f # post) \<le> estimateTokenUsage (pre @ f\<lparr>content := c\<rparr> # post))
   \<and> estimateTokenUsage files
        = \<lceil>real ((\<Sum>file\<leftarrow>files. min (length (content file)) 2000) + 1000) / 4\<rceil>"
proof (intro conjI impI)
  show "estimateTokenUsage [] = 250"
    by (simp add: estimateTokenUsage_def totalChars_def promptOverhead_def)
  show "estimateTokenUsage (pre @ post) \<le> estimateTokenUsage (pre @ f # post)"
    by (rule estimateTokenUsage_mono) (simp add: totalChars_sum)
  show "estimateTokenUsage (pre @ f # post) \<le> estimateTokenUsage (pre @ f\<lparr>content := c\<rparr> # post)"
    if "length (content f) \<le> length c"
    using that by (intro estimateTokenUsage_mono) (simp add: totalChars_sum)
  show "estimateTokenUsage files
        = \<lceil>real ((\<Sum>file\<leftarrow>files. min (length (content file)) 2000) + 1000) / 4\<rceil>"
    by (simp add: estimateTokenUsage_def totalChars_sum promptOverhead_def)
qed

theorem estimateTokenUsage_empty_monotone_witness:
  "length (content \<lparr>path = ''a.ts'', content = ''ab'', size_bytes = 2, extension = ''.ts''\<rparr>)
     \<le> length ''abcdef''
   \<and> estimateTokenUsage [\<lparr>path = ''a.ts'', content = ''ab'', size_bytes = 2, extension = ''.ts''\<rparr>]
     \<le> estimateTokenUsage [\<lparr>path = ''a.ts'', content = ''abcdef'', size_bytes = 2, extension = ''.ts''\<rparr>]
   \<and> estimateTokenUsage [\<lparr>path = ''a.ts'', content = ''ab'', size_bytes = 2, extension = ''.ts''\<rparr>] = 251
   \<and> estimateTokenUsage [\<lparr>path = ''a.ts'', content = ''abcdef'', size_bytes = 2, extension = ''.ts''\<rparr>] = 252"
  using estimateTokenUsage_empty_monotone
    [of "[]" "[]" "\<lparr>path = ''a.ts'', content = ''ab'', size_bytes = 2, extension = ''.ts''\<rparr>" "''abcdef''" "[]"]
  by (simp add: estimateTokenUsage_def totalChars_def promptOverhead_def)

section \<open>Properties of the prompt builder\<close>

text \<open>
  Claim C6. The prompt is the fixed instructions, the line that counts the files, the
  blocks of \<open>promptFiles\<close> joined by line feeds, and the fixed request with its closing
  instruction of the tier: nothing else, so no content reaches it but through a block. In
  the standard tier \<open>promptFiles\<close> are the first 12 of the files below 30000 bytes and a
  block carries the first 1200 characters of the content at most; in the advanced tier
  the first 20 and 2000 characters. A block whose file is longer than the cap carries the
  marker \<open>... (truncated)\<close> after the slice. No file of 30000 bytes or more is among the
  files of the prompt.
\<close>

theorem createAnalysisPrompt_caps:
  "createAnalysisPrompt files config
     = ''\<newline>Analyze this codebase and provide a comprehensive summary. Focus on:\<newline>''
         @ ''\<newline>''
         @ ''1. **Project Purpose**: What does this project do?\<newline>''
         @ ''2. **Technology Stack**: What frameworks, libraries, and tools are used?\<newline>''
         @ ''3. **Key Files**: Identify the most important files and their purposes\<newline>''
         @ ''4. **Architecture**: How is the project structured?\<newline>''
         @ ''5. **Main Features**: What are the core functionalities?\<newline>''
         @ ''\<newline>''
         @ ''Files to analyze ('' @ numberToString (length files) @ '' total files, showing first ''
         @ numberToString (min (if modelType config = advanced then 20 else 12) (length files))
         @ ''):\<newline>''
         @ join ''\<newline>'' (map (fileBlock config) (promptFiles files config))
         @ ''\<newline>''
         @ ''\<newline>''
         @ ''Please provide a detailed analysis in a structured format that explains:\<newline>''
         @ ''- The overall purpose and goal of this project\<newline>''
         @ ''- The main technologies and frameworks used\<newline>''
         @ ''- The most important files and what they do\<newline>''
         @ ''- The project's architecture and organization\<newline>''
         @ ''- Key features and functionality\<newline>''
         @ ''\<newline>''
         @ ''Be specific and technical, but also accessible to developers who are new to this codebase.\<newline>''
         @ (if modelType config = advanced \<and> enableAdvancedFeatures config = Some True
            then ''\<newline>''
                 @ ''\<newline>''
                 @ ''ENHANCED ANALYSIS MODE:\<newline>''
                 @ ''- Provide deeper insights into code patterns and best practices\<newline>''
                 @ ''- Identify potential improvements or architectural concerns\<newline>''
                 @ ''- Analyze the development workflow and tooling setup\<newline>''
                 @ ''- Comment on code quality and maintainability\<newline>''
                 @ ''- Suggest areas for optimization or refactoring\<newline>''
                 @ ''\<newline>''
                 @ ''Keep your response comprehensive and well-structured (aim for 800-1200 words).\<newline>''
            else ''\<newline>Keep your response concise but informative (aim for 500-700 words).'')
   \<and> (modelType config = standard \<longrightarrow>
         promptFiles files config = take 12 (filter (\<lambda>f. size_bytes f < 30000) files)
         \<and> length (promptFiles files config) \<le> 12
         \<and> (\<forall>f. \<exists>slice marker.
               fileBlock config f
                 = ''File: '' @ path f @ ''\<newline>Content:\<newline>'' @ slice @ marker @ ''\<newline>---\<newline>''
               \<and> slice = take 1200 (content f) \<and> length slice \<le> 1200
               \<and> marker = (if length (content f) > 1200 then ''\<newline>... (truncated)'' else [])))
   \<and> (modelType config = advanced \<longrightarrow>
         promptFiles files config = take 20 (filter (\<lambda>f. size_bytes f < 30000) files)
         \<and> length (promptFiles files config) \<le> 20
         \<and> (\<forall>f. \<exists>slice marker.
               fileBlock config f
                 = ''File: '' @ path f @ ''\<newline>Content:\<newline>'' @ slice @ marker @ ''\<newline>---\<newline>''
               \<and> slice = take 2000 (content f) \<and> length slice \<le> 2000
               \<and> marker = (if length (content f) > 2000 then ''\<newline>... (truncated)'' else [])))
   \<and> (\<forall>f \<in> set files. 30000 \<le> size_bytes f \<longrightarrow> f \<notin> set (promptFiles files config))
   \<and> set (promptFiles files config) \<subseteq> set files"
proof (intro conjI impI allI ballI)
  show "createAnalysisPrompt files config
     = ''\<newline>Analyze this codebase and provide a comprehensive summary. Focus on:\<newline>''
         @ ''\<newline>''
         @ ''1. **Project Purpose**: What does this project do?\<newline>''
         @ ''2. **Technology Stack**: What frameworks, libraries, and tools are used?\<newline>''
         @ ''3. **Key Files**: Identify the most important files and their purposes\<newline>''
         @ ''4. **Architecture**: How is the project structured?\<newline>''
         @ ''5. **Main Features**: What are the core functionalities?\<newline>''
         @ ''\<newline>''
         @ ''Files to analyze ('' @ numberToString (length files) @ '' total files, showing first ''
         @ numberToString (min (if modelType config = advanced then 20 else 12) (length files))
         @ ''):\<newline>''
         @ join ''\<newline>'' (map (fileBlock config) (promptFiles files config))
         @ ''\<newline>''
         @ ''\<newline>''
         @ ''Please provide a detailed analysis in a structured format that explains:\<newline>''
         @ ''- The overall purpose and goal of this project\<newline>''
         @ ''- The main technologies and frameworks used\<newline>''
         @ ''- The most important files and what they do\<newline>''
         @ ''- The project's architecture and organization\<newline>''
         @ ''- Key features and functionality\<newline>''
         @ ''\<newline>''
         @ ''Be specific and technical, but also accessible to developers who are new to this codebase.\<newline>''
         @ (if modelType config = advanced \<and> enableAdvancedFeatures config = Some True
            then ''\<newline>''
                 @ ''\<newline>''
                 @ ''ENHANCED ANALYSIS MODE:\<newline>''
                 @ ''- Provide deeper insights into code patterns and best practices\<newline>''
                 @ ''- Identify potential improvements or architectural concerns\<newline>''
                 @ ''- Analyze the development workflow and tooling setup\<newline>''
                 @ ''- Comment on code quality and maintainability\<newline>''
                 @ ''- Suggest areas for optimization or refactoring\<newline>''
                 @ ''\<newline>''
                 @ ''Keep your response comprehensive and well-structured (aim for 800-1200 words).\<newline>''
            else ''\<newline>Keep your response concise but informative (aim for 500-700 words).'')"
    by (simp add: createAnalysisPrompt_def fileList_def maxFiles_def promptIntro_def
        promptRequest_def enhancedInstructions_def conciseInstructions_def)
  show "promptFiles files config = take 12 (filter (\<lambda>f. size_bytes f < 30000) files)"
    if "modelType config = standard"
    using that by (simp add: promptFiles_def maxFiles_def)
  show "promptFiles files config = take 20 (filter (\<lambda>f. size_bytes f < 30000) files)"
    if "modelType config = advanced"
    using that by (simp add: promptFiles_def maxFiles_def)
  show "length (promptFiles files config) \<le> 12" if "modelType config = standard"
    using that by (simp add: promptFiles_def maxFiles_def)
  show "length (promptFiles files config) \<le> 20" if "modelType config = advanced"
    using that by (simp add: promptFiles_def maxFiles_def)
  show "\<exists>slice marker.
               fileBlock config f
                 = ''File: '' @ path f @ ''\<newline>Content:\<newline>'' @ slice @ marker @ ''\<newline>---\<newline>''
               \<and> slice = take 1200 (content f) \<and> length slice \<le> 1200
               \<and> marker = (if length (content f) > 1200 then ''\<newline>... (truncated)'' else [])"
    if "modelType config = standard" for f
    using that by (simp add: fileBlock_def truncated_def maxContentLength_def)
  show "\<exists>slice marker.
               fileBlock config f
                 = ''File: '' @ path f @ ''\<newline>Content:\<newline>'' @ slice @ marker @ ''\<newline>---\<newline>''
               \<and> slice = take 2000 (content f) \<and> length slice \<le> 2000
               \<and> marker = (if length (content f) > 2000 then ''\<newline>... (truncated)'' else [])"
    if "modelType config = advanced" for f
    using that by (simp add: fileBlock_def truncated_def maxContentLength_def)
  show "f \<notin> set (promptFiles files config)" if "f \<in> set files" "30000 \<le> size_bytes f" for f
    using that by (auto simp: promptFiles_def dest: in_set_takeD)
  show "set (promptFiles files config) \<subseteq> set files"
    by (auto simp: promptFiles_def dest: in_set_takeD)
qed

theorem createAnalysisPrompt_caps_witness:
  "modelType \<lparr>model = ''gemini-1.5-flash'', apiKey = ''k'', modelType = standard,
          enableAdvancedFeatures = None\<rparr> = standard
   \<and> promptFiles
        [\<lparr>path = ''big.json'', content = ''{}'', size_bytes = 30000, extension = ''.json''\<rparr>,
         \<lparr>path = ''a.ts'', content = replicate 1201 CHR ''x'', size_bytes = 1201, extension = ''.ts''\<rparr>]
        \<lparr>model = ''gemini-1.5-flash'', apiKey = ''k'', modelType = standard,
          enableAdvancedFeatures = None\<rparr>
       = [\<lparr>path = ''a.ts'', content = replicate 1201 CHR ''x'', size_bytes = 1201, extension = ''.ts''\<rparr>]
   \<and> length (promptFiles
        [\<lparr>path = ''big.json'', content = ''{}'', size_bytes = 30000, extension = ''.json''\<rparr>,
         \<lparr>path = ''a.ts'', content = replicate 1201 CHR ''x'', size_bytes = 1201, extension = ''.ts''\<rparr>]
        \<lparr>model = ''gemini-1.5-flash'', apiKey = ''k'', modelType = standard,
          enableAdvancedFeatures = None\<rparr>) \<le> 12
   \<and> 30000 \<le> size_bytes \<lparr>path = ''big.json'', content = ''{}'', size_bytes = 30000, extension = ''.json''\<rparr>
   \<and> \<lparr>path = ''big.json'', content = ''{}'', size_bytes = 30000, extension = ''.json''\<rparr>
       \<notin> set (promptFiles
        [\<lparr>path = ''big.json'', content = ''{}'', size_bytes = 30000, extension = ''.json''\<rparr>,
         \<lparr>path = ''a.ts'', content = replicate 1201 CHR ''x'', size_bytes = 1201, extension = ''.ts''\<rparr>]
        \<lparr>model = ''gemini-1.5-flash'', apiKey = ''k'', modelType = standard,
          enableAdvancedFeatures = None\<rparr>)
   \<and> modelType \<lparr>model = ''gemini-1.5-pro'', apiKey = ''k'', modelType = advanced,
          enableAdvancedFeatures = Some True\<rparr> = advanced
   \<and> length (promptFiles
        [\<lparr>path = ''big.json'', content = ''{}'', size_bytes = 30000, extension = ''.json''\<rparr>,
         \<lparr>path = ''a.ts'', content = replicate 1201 CHR ''x'', size_bytes = 1201, extension = ''.ts''\<rparr>]
        \<lparr>model = ''gemini-1.5-pro'', apiKey = ''k'', modelType = advanced,
          enableAdvancedFeatures = Some True\<rparr>) \<le> 20"
  using
    createAnalysisPrompt_caps
      [of "[\<lparr>path = ''big.json'', content = ''{}'', size_bytes = 30000, extension = ''.json''\<rparr>,
         \<lparr>path = ''a.ts'', content = replicate 1201 CHR ''x'', size_bytes = 1201, extension = ''.ts''\<rparr>]"
          "\<lparr>model = ''gemini-1.5-flash'', apiKey = ''k'', modelType = standard,
          enableAdvancedFeatures = None\<rparr>", THEN conjunct2]
    createAnalysisPrompt_caps
      [of "[\<lparr>path = ''big.json'', content = ''{}'', size_bytes = 30000, extension = ''.json''\<rparr>,
         \<lparr>path = ''a.ts'', content = replicate 1201 CHR ''x'', size_bytes = 1201, extension = ''.ts''\<rparr>]"
          "\<lparr>model = ''gemini-1.5-pro'', apiKey = ''k'', modelType = advanced,
          enableAdvancedFeatures = Some True\<rparr>", THEN conjunct2]
  by simp

section \<open>Properties of the fallback analyzer\<close>

text \<open>
  Claim C7, as stated, at the file set that holds \<open>main.go\<close> alone: the stack is \<open>Go\<close>, and
  the guess is \<open>Go application\<close>, not \<open>software\<close>.
\<close>

theorem guessProjectType_go_counterexample:
  "techStack [\<lparr>path = ''main.go'', content = ''package main'', size_bytes = 12, extension = ''.go''\<rparr>]
     = [''Go'']
   \<and> projectTypeGuess
        [\<lparr>path = ''main.go'', content = ''package main'', size_bytes = 12, extension = ''.go''\<rparr>]
       = ''Go application''
   \<and> projectTypeGuess
        [\<lparr>path = ''main.go'', content = ''package main'', size_bytes = 12, extension = ''.go''\<rparr>]
       \<noteq> ''software''"
  by (simp add: techStack_def projectTypeGuess_def guessProjectType_def)

text \<open>
  Claim C7, amended. For a file set whose only file is \<open>main.go\<close>, the detected stack
  includes \<open>Go\<close> and the project-type guess is \<open>Go application\<close>. For a file set with a
  file whose path contains \<open>next.config.js\<close>, the guess is \<open>Next.js web application\<close>.
\<close>

theorem guessProjectType_go_next:
  "(path f = ''main.go'' \<and> extension f = ''.go'' \<longrightarrow>
      List.member (techStack [f]) ''Go'' \<and> projectTypeGuess [f] = ''Go application'')
   \<and> (list_ex (\<lambda>f. includes_str (path f) ''next.config.js'') files \<longrightarrow>
        projectTypeGuess files = ''Next.js web application'')"
proof (intro conjI impI)
  assume a: "path f = ''main.go'' \<and> extension f = ''.go''"
  have ts: "techStack [f] = [''Go'']"
    using a by (simp add: techStack_def)
  show "List.member (techStack [f]) ''Go''"
    by (simp add: ts)
  show "projectTypeGuess [f] = ''Go application''"
    using a by (simp add: projectTypeGuess_def ts guessProjectType_def)
next
  assume "list_ex (\<lambda>f. includes_str (path f) ''next.config.js'') files"
  then obtain f where f: "f \<in> set files" "includes_str (path f) ''next.config.js''"
    by (auto simp: list_ex_iff)
  have "includes_str ''next.config.js'' ''next.config''"
    by code_simp
  with f have "includes_str (path f) ''next.config''"
    by (blast intro: includes_str_trans)
  with f have "list_ex (\<lambda>f. includes_str (path f) ''next.config'') files"
    by (auto simp: list_ex_iff)
  then have "List.member (techStack files) ''Next.js''"
    by (simp add: techStack_def)
  then show "projectTypeGuess files = ''Next.js web application''"
    by (simp add: projectTypeGuess_def guessProjectType_def)
qed

theorem guessProjectType_go_next_witness:
  "path \<lparr>path = ''main.go'', content = ''package main'', size_bytes = 12, extension = ''.go''\<rparr>
     = ''main.go''
   \<and> extension \<lparr>path = ''main.go'', content = ''package main'', size_bytes = 12, extension = ''.go''\<rparr>
       = ''.go''
   \<and> List.member
        (techStack [\<lparr>path = ''main.go'', content = ''package main'', size_bytes = 12, extension = ''.go''\<rparr>])
        ''Go''
   \<and> projectTypeGuess
        [\<lparr>path = ''main.go'', content = ''package main'', size_bytes = 12, extension = ''.go''\<rparr>]
       = ''Go application''
   \<and> list_ex (\<lambda>f. includes_str (path f) ''next.config.js'')
        [\<lparr>path = ''index.html'', content = ''<html>'', size_bytes = 6, extension = ''.html''\<rparr>,
         \<lparr>path = ''web/next.config.js'', content = ''module.exports = {}'', size_bytes = 19,
           extension = ''.js''\<rparr>]
   \<and> projectTypeGuess
        [\<lparr>path = ''index.html'', content = ''<html>'', size_bytes = 6, extension = ''.html''\<rparr>,
         \<lparr>path = ''web/next.config.js'', content = ''module.exports = {}'', size_bytes = 19,
           extension = ''.js''\<rparr>]
       = ''Next.js web application''"
proof -
  have h: "list_ex (\<lambda>f. includes_str (path f) ''next.config.js'')
        [\<lparr>path = ''index.html'', content = ''<html>'', size_bytes = 6, extension = ''.html''\<rparr>,
         \<lparr>path = ''web/next.config.js'', content = ''module.exports = {}'', size_bytes = 19,
           extension = ''.js''\<rparr>]"
    by simp
  show ?thesis
    using h
      guessProjectType_go_next
        [of "\<lparr>path = ''main.go'', content = ''package main'', size_bytes = 12, extension = ''.go''\<rparr>"
            "[\<lparr>path = ''index.html'', content = ''<html>'', size_bytes = 6, extension = ''.html''\<rparr>,
              \<lparr>path = ''web/next.config.js'', content = ''module.exports = {}'', size_bytes = 19,
                extension = ''.js''\<rparr>]"]
    by simp
qed

section \<open>Properties of the error classifier\<close>

lemma parseGeminiError_quota:
  assumes "includes_str (toLowerCase msg) ''exceeded your current quota''
           \<or> includes_str (toLowerCase msg) ''quotafailure''"
  shows "parseGeminiError msg = parseQuotaError msg"
  using assms by (simp add: parseGeminiError_def Let_def)

lemma type_parseQuotaError: "type (parseQuotaError msg) = quota_exceeded"
  by (simp add: parseQuotaError_def Let_def)

lemma type_parseRateLimitError: "type (parseRateLimitError msg) = rate_limit"
  by (simp add: parseRateLimitError_def)

lemma retryAfter_parseRateLimitError: "retryAfter (parseRateLimitError msg) = None"
  by (simp add: parseRateLimitError_def)

lemma type_parseGeminiError_quota_iff:
  "type (parseGeminiError msg) = quota_exceeded
     \<longleftrightarrow> includes_str (toLowerCase msg) ''exceeded your current quota''
         \<or> includes_str (toLowerCase msg) ''quotafailure''"
  by (simp add: parseGeminiError_def Let_def type_parseQuotaError type_parseRateLimitError)

lemma retryAfter_not_quota:
  assumes "type (parseGeminiError msg) \<noteq> quota_exceeded"
  shows "retryAfter (parseGeminiError msg) = None"
  using assms
  by (simp add: parseGeminiError_def Let_def type_parseQuotaError retryAfter_parseRateLimitError
      split: if_splits)

text \<open>
  Claim C2, as stated, at a message with the three substrings and without \<open>requests\<close>:
  the kind is \<open>quota_exceeded\<close>, and the three suggestions say nothing of a minute.
\<close>

theorem classify_quota_per_minute_counterexample:
  "includes_str ''exceeded your current quota free_tier PerMinute'' ''exceeded your current quota''
   \<and> includes_str ''exceeded your current quota free_tier PerMinute'' ''free_tier''
   \<and> includes_str ''exceeded your current quota free_tier PerMinute'' ''PerMinute''
   \<and> type (parseGeminiError ''exceeded your current quota free_tier PerMinute'') = quota_exceeded
   \<and> suggestions (parseGeminiError ''exceeded your current quota free_tier PerMinute'')
       = [''<U+1F193> You're using the FREE tier of Gemini API'',
          ''<U+1F4B3> Consider upgrading to a paid plan for higher limits'',
          ''<U+1F517> Billing info: https://console.cloud.google.com/billing'']
   \<and> \<not> list_ex (\<lambda>s. includes_str (toLowerCase s) ''minute'')
         (suggestions (parseGeminiError ''exceeded your current quota free_tier PerMinute''))"
  by code_simp

text \<open>
  Claim C2, amended. A message that contains \<open>exceeded your current quota\<close>, \<open>free_tier\<close>,
  \<open>requests\<close> and \<open>PerMinute\<close> is classified \<open>quota_exceeded\<close>, and its suggestions
  include the one of the limit of 15 requests per minute. A message that contains \<open>429\<close>
  and \<open>rate_limit_exceeded\<close>, and whose lower-cased text contains neither
  \<open>exceeded your current quota\<close> nor \<open>quotafailure\<close>, is classified \<open>rate_limit\<close>.
\<close>

theorem classify_quota_and_rate_limit:
  "(includes_str msg ''exceeded your current quota'' \<and> includes_str msg ''free_tier''
      \<and> includes_str msg ''requests'' \<and> includes_str msg ''PerMinute''
    \<longrightarrow> type (parseGeminiError msg) = quota_exceeded
        \<and> ''<U+23F1><U+FE0F>  Free tier: 15 requests per minute limit''
            \<in> set (suggestions (parseGeminiError msg)))
   \<and> (includes_str msg ''429'' \<and> includes_str msg ''rate_limit_exceeded''
      \<and> \<not> includes_str (toLowerCase msg) ''exceeded your current quota''
      \<and> \<not> includes_str (toLowerCase msg) ''quotafailure''
    \<longrightarrow> type (parseGeminiError msg) = rate_limit)"
proof (intro conjI impI)
  assume a: "includes_str msg ''exceeded your current quota'' \<and> includes_str msg ''free_tier''
      \<and> includes_str msg ''requests'' \<and> includes_str msg ''PerMinute''"
  have low: "toLowerCase ''exceeded your current quota'' = ''exceeded your current quota''"
    by code_simp
  from a have "includes_str (toLowerCase msg) ''exceeded your current quota''"
    using includes_str_toLowerCase[of msg "''exceeded your current quota''"] low by simp
  then have q: "parseGeminiError msg = parseQuotaError msg"
    by (simp add: parseGeminiError_quota)
  show "type (parseGeminiError msg) = quota_exceeded"
    by (simp add: q type_parseQuotaError)
  show "''<U+23F1><U+FE0F>  Free tier: 15 requests per minute limit''
            \<in> set (suggestions (parseGeminiError msg))"
    using a by (simp add: q parseQuotaError_def Let_def)
next
  assume a: "includes_str msg ''429'' \<and> includes_str msg ''rate_limit_exceeded''
      \<and> \<not> includes_str (toLowerCase msg) ''exceeded your current quota''
      \<and> \<not> includes_str (toLowerCase msg) ''quotafailure''"
  have l1: "toLowerCase ''429'' = ''429''" by code_simp
  have l2: "toLowerCase ''rate_limit_exceeded'' = ''rate_limit_exceeded''" by code_simp
  from a have "includes_str (toLowerCase msg) ''429''"
    using includes_str_toLowerCase[of msg "''429''"] l1 by simp
  moreover from a have "includes_str (toLowerCase msg) ''rate_limit_exceeded''"
    using includes_str_toLowerCase[of msg "''rate_limit_exceeded''"] l2 by simp
  ultimately show "type (parseGeminiError msg) = rate_limit"
    using a by (simp add: parseGeminiError_def Let_def type_parseRateLimitError)
qed

theorem classify_quota_and_rate_limit_witness:
  "includes_str ''You exceeded your current quota: free_tier_requests, GenerateRequestsPerMinutePerProject'' ''exceeded your current quota''
   \<and> includes_str ''You exceeded your current quota: free_tier_requests, GenerateRequestsPerMinutePerProject'' ''free_tier''
   \<and> includes_str ''You exceeded your current quota: free_tier_requests, GenerateRequestsPerMinutePerProject'' ''requests''
   \<and> includes_str ''You exceeded your current quota: free_tier_requests, GenerateRequestsPerMinutePerProject'' ''PerMinute''
   \<and> type (parseGeminiError ''You exceeded your current quota: free_tier_requests, GenerateRequestsPerMinutePerProject'') = quota_exceeded
   \<and> ''<U+23F1><U+FE0F>  Free tier: 15 requests per minute limit''
        \<in> set (suggestions (parseGeminiError ''You exceeded your current quota: free_tier_requests, GenerateRequestsPerMinutePerProject''))
   \<and> includes_str ''[429 Too Many Requests] RATE_LIMIT_EXCEEDED rate_limit_exceeded'' ''429''
   \<and> includes_str ''[429 Too Many Requests] RATE_LIMIT_EXCEEDED rate_limit_exceeded'' ''rate_limit_exceeded''
   \<and> \<not> includes_str (toLowerCase ''[429 Too Many Requests] RATE_LIMIT_EXCEEDED rate_limit_exceeded'') ''exceeded your current quota''
   \<and> \<not> includes_str (toLowerCase ''[429 Too Many Requests] RATE_LIMIT_EXCEEDED rate_limit_exceeded'') ''quotafailure''
   \<and> type (parseGeminiError ''[429 Too Many Requests] RATE_LIMIT_EXCEEDED rate_limit_exceeded'') = rate_limit"
proof -
  have h1: "includes_str ''You exceeded your current quota: free_tier_requests, GenerateRequestsPerMinutePerProject'' ''exceeded your current quota''
   \<and> includes_str ''You exceeded your current quota: free_tier_requests, GenerateRequestsPerMinutePerProject'' ''free_tier''
   \<and> includes_str ''You exceeded your current quota: free_tier_requests, GenerateRequestsPerMinutePerProject'' ''requests''
   \<and> includes_str ''You exceeded your current quota: free_tier_requests, GenerateRequestsPerMinutePerProject'' ''PerMinute''"
    by code_simp
  have h2: "includes_str ''[429 Too Many Requests] RATE_LIMIT_EXCEEDED rate_limit_exceeded'' ''429''
   \<and> includes_str ''[429 Too Many Requests] RATE_LIMIT_EXCEEDED rate_limit_exceeded'' ''rate_limit_exceeded''
   \<and> \<not> includes_str (toLowerCase ''[429 Too Many Requests] RATE_LIMIT_EXCEEDED rate_limit_exceeded'') ''exceeded your current quota''
   \<and> \<not> includes_str (toLowerCase ''[429 Too Many Requests] RATE_LIMIT_EXCEEDED rate_limit_exceeded'') ''quotafailure''"
    by code_simp
  show ?thesis
    using h1 h2
      classify_quota_and_rate_limit[of "''You exceeded your current quota: free_tier_requests, GenerateRequestsPerMinutePerProject''"]
      classify_quota_and_rate_limit[of "''[429 Too Many Requests] RATE_LIMIT_EXCEEDED rate_limit_exceeded''"]
    by blast
qed

subsection \<open>The retry-delay pattern\<close>

lemma dropWhile_append_stop:
  "\<not> P y \<Longrightarrow> dropWhile P (xs @ y # ys) = dropWhile P xs @ y # ys"
  by (induction xs) simp_all

lemma takeWhile_append_stop:
  "\<not> P y \<Longrightarrow> takeWhile P (xs @ y # ys) = takeWhile P xs"
  by (induction xs) simp_all

lemma toLowerChar_r: "toLowerChar c = CHR ''r'' \<Longrightarrow> c = CHR ''r'' \<or> c = CHR ''R''"
  by (cases c) (auto simp: toLowerChar_Char split: if_splits)

lemma toLowerChar_s: "toLowerChar c = CHR ''s'' \<Longrightarrow> c = CHR ''s'' \<or> c = CHR ''S''"
  by (cases c) (auto simp: toLowerChar_Char split: if_splits)

lemma toLowerChar_other:
  "toLowerChar c = d \<Longrightarrow> d \<in> {CHR '':'', CHR '' '', CHR 0x22, CHR ''3'', CHR ''0''} \<Longrightarrow> c = d"
  by (cases c) (auto simp: toLowerChar_Char split: if_splits)

lemma stopper_r:
  assumes "toLowerChar c = CHR ''r''"
  shows "\<not> isWhiteSpace c" "\<not> isQuote c" "\<not> isDigit c" "c \<noteq> CHR '':''" "toLowerChar c \<noteq> CHR ''s''"
  using toLowerChar_r[OF assms] assms
  by (auto simp: isWhiteSpace_def isQuote_def isDigit_def)


lemma retryDelayAt_append_long:
  assumes r: "toLowerChar c0 = CHR ''r''" and len: "length p > 10"
  shows "retryDelayAt (p @ c0 # rest) = retryDelayAt p"
proof -
  from len obtain c r' where d: "drop 10 p = c # r'"
    by (cases "drop 10 p") auto
  note st = stopper_r[OF r]
  have t: "take 10 (p @ c0 # rest) = take 10 p"
    using len by simp
  have dd: "drop 10 (p @ c0 # rest) = c # r' @ c0 # rest"
    using len d by simp
  show ?thesis
  proof (cases "dropWhile isDigit (dropWhile isQuote (dropWhile isWhiteSpace r'))")
    case Nil
    then show ?thesis
      unfolding retryDelayAt_def t dd d
      by (simp add: Let_def dropWhile_append_stop takeWhile_append_stop st
          del: dropWhile_eq_Nil_conv)
  next
    case (Cons e es)
    then show ?thesis
      unfolding retryDelayAt_def t dd d
      by (simp add: Let_def dropWhile_append_stop takeWhile_append_stop st
          del: dropWhile_eq_Nil_conv)
  qed
qed

lemma retryDelayAt_append_10:
  assumes r: "toLowerChar c0 = CHR ''r''" and len: "length p = 10"
  shows "retryDelayAt (p @ c0 # rest) = None"
  using len stopper_r[OF r] by (simp add: retryDelayAt_def)

lemma retryDelayAt_append_short:
  assumes r: "toLowerChar c0 = CHR ''r''" and e: "toLowerChar c1 = CHR ''e''"
    and len: "0 < length p" "length p < 10"
  shows "retryDelayAt (p @ c0 # c1 # rest) = None"
proof -
  let ?k = "length p"
  let ?t = "toLowerCase (take 10 (p @ c0 # c1 # rest))"
  have k: "?t ! ?k = CHR ''r''"
    using len r by (simp add: toLowerCase_def nth_append)
  have k1: "?t ! Suc ?k = CHR ''e''" if "?k < 9"
    using that e by (simp add: toLowerCase_def nth_append)
  have "?t \<noteq> ''retrydelay''"
  proof
    assume eq: "?t = ''retrydelay''"
    from len consider "?k = 1" | "?k = 2" | "?k = 3" | "?k = 4" | "?k = 5" | "?k = 6"
      | "?k = 7" | "?k = 8" | "?k = 9"
      by linarith
    then show False
    proof cases
      case 3
      with k1 eq show False by simp
    qed (use k eq in simp_all)
  qed
  then show ?thesis
    by (simp add: retryDelayAt_def)
qed

lemma retryDelayAt_append_None:
  assumes "retryDelayAt p = None" and "p \<noteq> []"
    and r: "toLowerChar c0 = CHR ''r''" and e: "toLowerChar c1 = CHR ''e''"
  shows "retryDelayAt (p @ c0 # c1 # rest) = None"
proof -
  consider "length p < 10" | "length p = 10" | "length p > 10"
    by linarith
  then show ?thesis
  proof cases
    case 1
    with assms show ?thesis by (simp add: retryDelayAt_append_short)
  next
    case 2
    with r show ?thesis by (simp add: retryDelayAt_append_10)
  next
    case 3
    with assms show ?thesis by (simp add: retryDelayAt_append_long)
  qed
qed

lemma retryMatch_None_Cons:
  "retryMatch (c # cs) = None \<longleftrightarrow> retryDelayAt (c # cs) = None \<and> retryMatch cs = None"
  by (simp split: option.splits)

lemma retryMatch_append:
  assumes "retryMatch pre = None"
    and r: "toLowerChar c0 = CHR ''r''" and e: "toLowerChar c1 = CHR ''e''"
  shows "retryMatch (pre @ c0 # c1 # rest) = retryMatch (c0 # c1 # rest)"
  using assms(1)
proof (induction pre)
  case Nil
  then show ?case by simp
next
  case (Cons a pre)
  then have "retryDelayAt (a # pre) = None" and "retryMatch pre = None"
    by (auto split: option.splits)
  with Cons.IH retryDelayAt_append_None[OF _ _ r e, of "a # pre" rest] show ?case
    by simp
qed

lemma length16:
  assumes "length xs = 17"
  obtains x0 x1 x2 x3 x4 x5 x6 x7 x8 x9 x10 x11 x12 x13 x14 x15 x16
  where "xs = [x0, x1, x2, x3, x4, x5, x6, x7, x8, x9, x10, x11, x12, x13, x14, x15, x16]"
  using assms by (auto simp: eval_nat_numeral length_Suc_conv)

lemma retryDelayAt_shape:
  assumes \<open>toLowerCase shape = ''retrydelay: "30s"''\<close>
  shows "retryDelayAt (shape @ post) = Some ''30''"
proof -
  have "length (toLowerCase shape) = length shape"
    by (simp add: toLowerCase_def)
  moreover have "length (toLowerCase shape) = 17"
    unfolding assms by simp
  ultimately have "length shape = 17"
    by simp
  then obtain x0 x1 x2 x3 x4 x5 x6 x7 x8 x9 x10 x11 x12 x13 x14 x15 x16
    where sh: "shape = [x0, x1, x2, x3, x4, x5, x6, x7, x8, x9, x10, x11, x12, x13, x14, x15, x16]"
    by (rule length16)
  from assms have lit: "toLowerCase [x0, x1, x2, x3, x4, x5, x6, x7, x8, x9] = ''retrydelay''"
    and l10: "toLowerChar x10 = CHR '':''" and l11: "toLowerChar x11 = CHR '' ''"
    and l12: "toLowerChar x12 = CHR 0x22" and l13: "toLowerChar x13 = CHR ''3''"
    and l14: "toLowerChar x14 = CHR ''0''" and x15: "toLowerChar x15 = CHR ''s''"
    unfolding sh by (simp_all add: toLowerCase_def)
  have x10: "x10 = CHR '':''" by (rule toLowerChar_other[OF l10]) simp
  have x11: "x11 = CHR '' ''" by (rule toLowerChar_other[OF l11]) simp
  have x12: "x12 = CHR 0x22" by (rule toLowerChar_other[OF l12]) simp
  have x13: "x13 = CHR ''3''" by (rule toLowerChar_other[OF l13]) simp
  have x14: "x14 = CHR ''0''" by (rule toLowerChar_other[OF l14]) simp
  from toLowerChar_s[OF x15] have nd: "\<not> isDigit x15"
    by (auto simp: isDigit_def)
  have cls: "isWhiteSpace CHR '' ''" "\<not> isWhiteSpace (CHR 0x22)" "isQuote (CHR 0x22)"
    "\<not> isQuote CHR ''3''" "isDigit CHR ''3''" "isDigit CHR ''0''"
    by (simp_all add: isWhiteSpace_def isQuote_def isDigit_def)
  show ?thesis
    unfolding sh x10 x11 x12 x13 x14 using lit x15
    by (simp add: retryDelayAt_def cls nd)
qed

lemma retryAfter_parseQuotaError:
  "retryAfter (parseQuotaError msg) = map_option parseInt (retryMatch msg)"
  by (simp add: parseQuotaError_def Let_def)

lemma retrySuggestion_parseQuotaError:
  assumes "retryMatch msg = Some digits"
  shows "(''<U+23F0> Suggested retry time: '' @ numberToString (parseInt digits) @ '' seconds'')
           \<in> set (suggestions (parseQuotaError msg))"
  using assms by (simp add: parseQuotaError_def Let_def)

text \<open>
  Claim C8, as stated, at three messages. The shape alone is classified \<open>unknown\<close> and
  carries no delay; with the marks of a rate limit it is classified \<open>rate_limit\<close> and
  carries none either; and in a quota message the first match wins, here the 5 seconds
  that stand before the 30.
\<close>

theorem retryAfter_30_counterexample:
  \<open>type (parseGeminiError ''retryDelay: "30s"'') = unknown
   \<and> retryAfter (parseGeminiError ''retryDelay: "30s"'') = None
   \<and> type (parseGeminiError ''429 rate_limit_exceeded retryDelay: "30s"'') = rate_limit
   \<and> retryAfter (parseGeminiError ''429 rate_limit_exceeded retryDelay: "30s"'') = None
   \<and> retryAfter (parseGeminiError ''quotaFailure retryDelay: "5s" retryDelay: "30s"'') = Some 5\<close>
  by code_simp

text \<open>
  Claim C8, amended. For every error message that the classifier takes for a quota
  error (its lower-cased text contains \<open>exceeded your current quota\<close> or \<open>quotafailure\<close>) and
  that contains a substring of the shape \<open>retryDelay: "30s"\<close>, in any case of the letters,
  with no match of the retry pattern in the text before it, the result carries
  \<open>retryAfter = 30\<close> and the suggestion that states 30 seconds.
\<close>

theorem retryAfter_30:
  assumes quota: "includes_str (toLowerCase msg) ''exceeded your current quota''
                  \<or> includes_str (toLowerCase msg) ''quotafailure''"
    and msg: "msg = pre @ shape @ post"
    and shape: \<open>toLowerCase shape = ''retrydelay: "30s"''\<close>
    and pre: "retryMatch pre = None"
  shows "type (parseGeminiError msg) = quota_exceeded
         \<and> retryAfter (parseGeminiError msg) = Some 30
         \<and> ''<U+23F0> Suggested retry time: 30 seconds'' \<in> set (suggestions (parseGeminiError msg))"
proof -
  have "length (toLowerCase shape) = length shape"
    by (simp add: toLowerCase_def)
  then obtain c0 c1 rest where sh: "shape = c0 # c1 # rest"
    unfolding shape by (cases shape; cases "tl shape") auto
  from shape have r: "toLowerChar c0 = CHR ''r''" and e: "toLowerChar c1 = CHR ''e''"
    unfolding sh by (simp_all add: toLowerCase_def)
  have "retryMatch msg = retryMatch (shape @ post)"
    unfolding msg sh using retryMatch_append[OF pre r e] by simp
  also have "\<dots> = Some ''30''"
    using retryDelayAt_shape[OF shape, of post] by (simp add: sh)
  finally have m: "retryMatch msg = Some ''30''" .
  have p: "parseInt ''30'' = 30"
    by (simp add: parseInt_def)
  have n: "numberToString 30 = ''30''"
    by code_simp
  have q: "parseGeminiError msg = parseQuotaError msg"
    using quota by (rule parseGeminiError_quota)
  show ?thesis
    using retrySuggestion_parseQuotaError[OF m]
    by (simp add: q type_parseQuotaError retryAfter_parseQuotaError m p n)
qed

theorem retryAfter_30_witness:
  \<open>(includes_str (toLowerCase ''You exceeded your current quota. RetryDelay: "30S"}'') ''exceeded your current quota''
     \<or> includes_str (toLowerCase ''You exceeded your current quota. RetryDelay: "30S"}'') ''quotafailure'')
   \<and> ''You exceeded your current quota. RetryDelay: "30S"}''
        = ''You exceeded your current quota. '' @ ''RetryDelay: "30S"'' @ ''}''
   \<and> toLowerCase ''RetryDelay: "30S"'' = ''retrydelay: "30s"''
   \<and> retryMatch ''You exceeded your current quota. '' = None
   \<and> type (parseGeminiError ''You exceeded your current quota. RetryDelay: "30S"}'') = quota_exceeded
   \<and> retryAfter (parseGeminiError ''You exceeded your current quota. RetryDelay: "30S"}'') = Some 30
   \<and> ''<U+23F0> Suggested retry time: 30 seconds''
        \<in> set (suggestions (parseGeminiError ''You exceeded your current quota. RetryDelay: "30S"}''))\<close>
proof -
  have h1: \<open>includes_str (toLowerCase ''You exceeded your current quota. RetryDelay: "30S"}'') ''exceeded your current quota''
     \<or> includes_str (toLowerCase ''You exceeded your current quota. RetryDelay: "30S"}'') ''quotafailure''\<close>
    by code_simp
  have h2: \<open>''You exceeded your current quota. RetryDelay: "30S"}''
        = ''You exceeded your current quota. '' @ ''RetryDelay: "30S"'' @ ''}''\<close>
    by simp
  have h3: \<open>toLowerCase ''RetryDelay: "30S"'' = ''retrydelay: "30s"''\<close>
    by code_simp
  have h4: "retryMatch ''You exceeded your current quota. '' = None"
    by code_simp
  show ?thesis
    using h1 h2 h3 h4 retryAfter_30[OF h1 h2 h3 h4] by blast
qed

text \<open>
  The pattern wants the separator right after the name, so the JSON
  spelling \<open>"retryDelay": "30s"\<close>, with a quote between the name and the colon, is not
  matched: a quota message in that spelling carries no \<open>retryAfter\<close>.
\<close>

theorem retryDelay_json_spelling_not_matched:
  \<open>retryMatch ''"retryDelay": "30s"'' = None
   \<and> type (parseGeminiError ''You exceeded your current quota. "retryDelay": "30s"'') = quota_exceeded
   \<and> retryAfter (parseGeminiError ''You exceeded your current quota. "retryDelay": "30s"'') = None\<close>
  by code_simp

section \<open>Properties of the scanner\<close>

text \<open>
  Claim C5, at two files without an extension. \<open>README\<close> is important by its name and
  \<open>LICENSE\<close> is not, and both are scanned; the comparator of the final \<open>sort\<close> looks at the
  extension alone, finds neither important and orders them by size, so the file that is
  not important comes first.
\<close>

theorem scanRepository_README_after_LICENSE:
  "scanRepository
     [\<lparr> filePath = ''README'', stat = Inr 10, extname = [], readFile = Some ''# readme'' \<rparr>,
      \<lparr> filePath = ''LICENSE'', stat = Inr 5, extname = [], readFile = Some ''MIT'' \<rparr>]
   = Inr [\<lparr> path = ''LICENSE'', content = ''MIT'', size_bytes = 5, extension = [] \<rparr>,
          \<lparr> path = ''README'', content = ''# readme'', size_bytes = 10, extension = [] \<rparr>]
   \<and> isImportant ''README'' []
   \<and> \<not> isImportant ''LICENSE'' []"
  by (simp add: scanRepository_def sortBy_def compareFiles_def isImportant_def
      IMPORTANT_EXTENSIONS_def)

lemma set_insertBy: "set (insertBy cmp x ys) = insert x (set ys)"
  by (induction ys) auto

lemma set_sortBy: "set (sortBy cmp xs) = set xs"
  by (induction xs) (simp_all add: sortBy_def set_insertBy)

lemma compareFiles_total: "compareFiles a b \<le> 0 \<or> compareFiles b a \<le> 0"
  by (auto simp: compareFiles_def Let_def)

lemma compareFiles_trans:
  "compareFiles a b \<le> 0 \<Longrightarrow> compareFiles b c \<le> 0 \<Longrightarrow> compareFiles a c \<le> 0"
  by (auto simp: compareFiles_def Let_def split: if_splits)

lemma sorted_insertBy_compareFiles:
  assumes "sorted_wrt (\<lambda>a b. compareFiles a b \<le> 0) ys"
  shows "sorted_wrt (\<lambda>a b. compareFiles a b \<le> 0) (insertBy compareFiles x ys)"
  using assms
proof (induction ys)
  case Nil
  then show ?case by simp
next
  case (Cons y ys)
  show ?case
  proof (cases "compareFiles x y \<le> 0")
    case True
    with Cons.prems show ?thesis
      by (auto intro: compareFiles_trans)
  next
    case False
    then have "compareFiles y x \<le> 0"
      using compareFiles_total[of x y] by simp
    with False Cons show ?thesis
      by (auto simp: set_insertBy)
  qed
qed

lemma sorted_sortBy_compareFiles:
  "sorted_wrt (\<lambda>a b. compareFiles a b \<le> 0) (sortBy compareFiles xs)"
  by (induction xs) (simp_all add: sortBy_def sorted_insertBy_compareFiles)

lemma compareFiles_le_iff:
  "compareFiles a b \<le> 0 \<longleftrightarrow>
     (List.member IMPORTANT_EXTENSIONS (extension a) \<and> \<not> List.member IMPORTANT_EXTENSIONS (extension b))
     \<or> (List.member IMPORTANT_EXTENSIONS (extension a) = List.member IMPORTANT_EXTENSIONS (extension b)
        \<and> size_bytes a \<le> size_bytes b)"
  by (auto simp: compareFiles_def Let_def)

lemma scanLoop_sizes:
  assumes "scanLoop ds acc = Inr files" and "\<forall>f \<in> set acc. size_bytes f \<le> 1024 * 1024"
  shows "\<forall>f \<in> set files. size_bytes f \<le> 1024 * 1024"
  using assms
proof (induction ds arbitrary: acc)
  case Nil
  then show ?case by simp
next
  case (Cons d ds)
  show ?case
  proof (cases "stat d")
    case (Inl e)
    with Cons.prems show ?thesis by simp
  next
    case (Inr sz)
    show ?thesis
    proof (cases "sz > 1024 * 1024")
      case True
      with Inr Cons show ?thesis by simp
    next
      case False
      with Inr Cons.prems Cons.IH[of acc]
        Cons.IH[of "acc @ [\<lparr> path = filePath d, content = the (readFile d), size_bytes = sz,
                               extension = extname d \<rparr>]"]
      show ?thesis
        by (auto split: if_splits option.splits)
    qed
  qed
qed

text \<open>
  What the final \<open>sort\<close> does establish. Whenever the scan returns, its list is ordered by
  the comparator: the files whose extension is in \<open>IMPORTANT_EXTENSIONS\<close> stand before all others, each of the
  two groups ascends by size, and no file is larger than 1 MiB.
\<close>

theorem scanRepository_ordered:
  assumes "scanRepository fs = Inr files"
  shows "sorted_wrt
           (\<lambda>a b. (List.member IMPORTANT_EXTENSIONS (extension a)
                    \<and> \<not> List.member IMPORTANT_EXTENSIONS (extension b))
                  \<or> (List.member IMPORTANT_EXTENSIONS (extension a)
                        = List.member IMPORTANT_EXTENSIONS (extension b)
                      \<and> size_bytes a \<le> size_bytes b))
           files
         \<and> (\<forall>f \<in> set files. size_bytes f \<le> 1024 * 1024)"
proof -
  from assms obtain pushed where p: "scanLoop fs [] = Inr pushed" and f: "files = sortBy compareFiles pushed"
    by (auto simp: scanRepository_def split: sum.splits)
  have "sorted_wrt (\<lambda>a b. compareFiles a b \<le> 0) files"
    unfolding f by (rule sorted_sortBy_compareFiles)
  then have 1: "sorted_wrt
           (\<lambda>a b. (List.member IMPORTANT_EXTENSIONS (extension a)
                    \<and> \<not> List.member IMPORTANT_EXTENSIONS (extension b))
                  \<or> (List.member IMPORTANT_EXTENSIONS (extension a)
                        = List.member IMPORTANT_EXTENSIONS (extension b)
                      \<and> size_bytes a \<le> size_bytes b))
           files"
    by (simp only: compareFiles_le_iff)
  have "\<forall>f \<in> set pushed. size_bytes f \<le> 1024 * 1024"
    using scanLoop_sizes[OF p] by simp
  then have 2: "\<forall>f \<in> set files. size_bytes f \<le> 1024 * 1024"
    by (simp add: f set_sortBy)
  from 1 2 show ?thesis by simp
qed

theorem scanRepository_ordered_witness:
  "scanRepository
     [\<lparr> filePath = ''README'', stat = Inr 10, extname = [], readFile = Some ''# readme'' \<rparr>,
      \<lparr> filePath = ''dump.json'', stat = Inr 2000000, extname = ''.json'', readFile = Some ''{}'' \<rparr>,
      \<lparr> filePath = ''src/a.ts'', stat = Inr 100, extname = ''.ts'', readFile = Some ''let a'' \<rparr>,
      \<lparr> filePath = ''LICENSE'', stat = Inr 5, extname = [], readFile = Some ''MIT'' \<rparr>]
   = Inr [\<lparr> path = ''src/a.ts'', content = ''let a'', size_bytes = 100, extension = ''.ts'' \<rparr>,
          \<lparr> path = ''LICENSE'', content = ''MIT'', size_bytes = 5, extension = [] \<rparr>,
          \<lparr> path = ''README'', content = ''# readme'', size_bytes = 10, extension = [] \<rparr>]
   \<and> sorted_wrt
        (\<lambda>a b. (List.member IMPORTANT_EXTENSIONS (extension a)
                 \<and> \<not> List.member IMPORTANT_EXTENSIONS (extension b))
               \<or> (List.member IMPORTANT_EXTENSIONS (extension a)
                     = List.member IMPORTANT_EXTENSIONS (extension b)
                   \<and> size_bytes a \<le> size_bytes b))
        [\<lparr> path = ''src/a.ts'', content = ''let a'', size_bytes = 100, extension = ''.ts'' \<rparr>,
         \<lparr> path = ''LICENSE'', content = ''MIT'', size_bytes = 5, extension = [] \<rparr>,
         \<lparr> path = ''README'', content = ''# readme'', size_bytes = 10, extension = [] \<rparr>]"
proof -
  have h: "scanRepository
     [\<lparr> filePath = ''README'', stat = Inr 10, extname = [], readFile = Some ''# readme'' \<rparr>,
      \<lparr> filePath = ''dump.json'', stat = Inr 2000000, extname = ''.json'', readFile = Some ''{}'' \<rparr>,
      \<lparr> filePath = ''src/a.ts'', stat = Inr 100, extname = ''.ts'', readFile = Some ''let a'' \<rparr>,
      \<lparr> filePath = ''LICENSE'', stat = Inr 5, extname = [], readFile = Some ''MIT'' \<rparr>]
   = Inr [\<lparr> path = ''src/a.ts'', content = ''let a'', size_bytes = 100, extension = ''.ts'' \<rparr>,
          \<lparr> path = ''LICENSE'', content = ''MIT'', size_bytes = 5, extension = [] \<rparr>,
          \<lparr> path = ''README'', content = ''# readme'', size_bytes = 10, extension = [] \<rparr>]"
    by (simp add: scanRepository_def sortBy_def compareFiles_def isImportant_def
        IMPORTANT_EXTENSIONS_def)
  show ?thesis
    using h scanRepository_ordered[OF h] by simp
qed

section \<open>Properties of the retry wrapper\<close>

lemma generateWithRetry_first_other:
  assumes "client prompt (calls s) = Inl error"
    and "\<not> (instanceofError error \<and> type (parseGeminiError (errorMessage error)) = rate_limit)"
  shows "generateWithRetry client prompt s
           = (Inl error, s\<lparr> calls := calls s + 1, trace := trace s @ [GatewayCall] \<rparr>)"
  unfolding generateWithRetry_def using assms
  by (subst generateWithRetryFrom.simps) (auto simp: Let_def emit_def)

lemma generateWithRetry_rate_limit_twice:
  assumes "client prompt (calls s) = Inl errA"
    and "instanceofError errA" and "type (parseGeminiError (errorMessage errA)) = rate_limit"
    and "client prompt (calls s + 1) = Inl errB"
  shows "generateWithRetry client prompt s
           = (Inl errB, s\<lparr> calls := calls s + 2,
                         trace := trace s @ [GatewayCall, Sleep 2000, GatewayCall] \<rparr>)"
  unfolding generateWithRetry_def using assms
  by (subst generateWithRetryFrom.simps, subst generateWithRetryFrom.simps)
     (simp add: Let_def emit_def)

lemma type_429: "type (parseGeminiError ''429 rate_limit_exceeded'') = rate_limit"
  by code_simp

lemma type_401: "type (parseGeminiError ''401 Unauthorized'') = invalid_key"
  by code_simp

lemma type_400: "type (parseGeminiError ''400 Bad Request'') = content_too_large"
  by code_simp

text \<open>
  Claim C1, at a Gateway that fails twice with a rate limit and would answer the third
  call. With \<open>maxRetries = 2\<close> the wrapper waits 2 seconds after the first failure, calls
  again, and throws the second failure: \<open>attempt === maxRetries\<close> holds there. There is
  one retry, no wait of 4 seconds, and no third call.
\<close>

theorem generateWithRetry_third_call_never_made:
  "generateWithRetry
     (\<lambda>prompt n. if n < 2 then Inl (Error ''Error'' ''429 rate_limit_exceeded'')
                  else Inr ''the third answer'')
     ''prompt'' \<lparr> calls = 0, trace = [] \<rparr>
   = (Inl (Error ''Error'' ''429 rate_limit_exceeded''),
      \<lparr> calls = 2, trace = [GatewayCall, Sleep 2000, GatewayCall] \<rparr>)"
  using generateWithRetry_rate_limit_twice
    [of "\<lambda>prompt n. if n < 2 then Inl (Error ''Error'' ''429 rate_limit_exceeded'')
                      else Inr ''the third answer''"
        "''prompt''" "\<lparr> calls = 0, trace = [] \<rparr>" "Error ''Error'' ''429 rate_limit_exceeded''"
        "Error ''Error'' ''429 rate_limit_exceeded''"]
  by (simp add: type_429)

text \<open>
  The same for every Gateway: when its first call fails with an \<open>Error\<close>
  classified \<open>rate_limit\<close> and its second call fails, \<open>generateWithRetry\<close> throws the error
  of the second call, after two calls and one wait of 2000 milliseconds.
\<close>

theorem generateWithRetry_gives_up_at_second_failure:
  assumes "client prompt (calls s) = Inl first"
    and "instanceofError first" and "type (parseGeminiError (errorMessage first)) = rate_limit"
    and "client prompt (calls s + 1) = Inl second"
  shows "generateWithRetry client prompt s
           = (Inl second, s\<lparr> calls := calls s + 2,
                            trace := trace s @ [GatewayCall, Sleep 2000, GatewayCall] \<rparr>)"
  using assms by (rule generateWithRetry_rate_limit_twice)

theorem generateWithRetry_gives_up_at_second_failure_witness:
  "(\<lambda>prompt n. if n = 0 then Inl (Error ''Error'' ''429 rate_limit_exceeded'') else Inl NonError)
      ''prompt'' (calls freshSession)
     = Inl (Error ''Error'' ''429 rate_limit_exceeded'')
   \<and> instanceofError (Error ''Error'' ''429 rate_limit_exceeded'')
   \<and> type (parseGeminiError (errorMessage (Error ''Error'' ''429 rate_limit_exceeded''))) = rate_limit
   \<and> (\<lambda>prompt n. if n = 0 then Inl (Error ''Error'' ''429 rate_limit_exceeded'') else Inl NonError)
        ''prompt'' (calls freshSession + 1)
       = Inl NonError
   \<and> generateWithRetry
        (\<lambda>prompt n. if n = 0 then Inl (Error ''Error'' ''429 rate_limit_exceeded'') else Inl NonError)
        ''prompt'' freshSession
       = (Inl NonError, \<lparr> calls = 2, trace = [GatewayCall, Sleep 2000, GatewayCall] \<rparr>)"
  using generateWithRetry_gives_up_at_second_failure
    [of "\<lambda>prompt n. if n = 0 then Inl (Error ''Error'' ''429 rate_limit_exceeded'') else Inl NonError"
        "''prompt''" freshSession "Error ''Error'' ''429 rate_limit_exceeded''" NonError]
  by (simp add: freshSession_def type_429)

text \<open>
  What the wrapper does achieve: one retry. When the first call fails with an \<open>Error\<close>
  classified \<open>rate_limit\<close> and the second call answers, the wrapper returns that answer
  after one wait of 2000 milliseconds.
\<close>

theorem generateWithRetry_succeeds_at_second_call:
  assumes "client prompt (calls s) = Inl first"
    and "instanceofError first" and "type (parseGeminiError (errorMessage first)) = rate_limit"
    and "client prompt (calls s + 1) = Inr answer"
  shows "generateWithRetry client prompt s
           = (Inr answer, s\<lparr> calls := calls s + 2,
                            trace := trace s @ [GatewayCall, Sleep 2000, GatewayCall] \<rparr>)"
  unfolding generateWithRetry_def using assms
  by (subst generateWithRetryFrom.simps, subst generateWithRetryFrom.simps)
     (simp add: Let_def emit_def)

section \<open>Properties of the run\<close>

lemma scanRepository_Nil: "scanRepository [] = Inr []"
  by (simp add: scanRepository_def sortBy_def)

lemma analyzeTry_gateway_error:
  assumes "scanRepository (allFiles e) = Inr files"
    and "generateWithRetry (gateway e config) (createAnalysisPrompt files config) s = (Inl error, s1)"
  shows "analyzeTry e config s = (Inl error, s1)"
  using assms by (simp add: analyzeTry_def)

lemma analyzeRepository_catch:
  assumes "analyzeTry e config s = (Inl (Error n m), s1)"
  shows "analyzeRepository e config answers s =
     (let errorInfo = parseGeminiError m
      in if type errorInfo = quota_exceeded \<or> type errorInfo = rate_limit then
           (case answers of
              Action fallback # rest \<Rightarrow> (Some (analyzeFallback e), emit [AskAction] s1)
            | Action retry # rest \<Rightarrow>
                analyzeRepository e config rest
                  (emit (AskAction # replicate (waitTime errorInfo) (Sleep 1000)) s1)
            | Action exit # rest \<Rightarrow>
                (Some (Inl (UserExitError ''User chose to exit'')), emit [AskAction] s1)
            | _ \<Rightarrow> (None, emit [AskAction] s1))
         else if type errorInfo = invalid_key then
           (case answers of
              Confirm True # Password key # rest \<Rightarrow>
                analyzeRepository e (config\<lparr> apiKey := key \<rparr>) rest
                  (emit [AskConfirm, AskPassword] s1)
            | Confirm True # _ \<Rightarrow> (None, emit [AskConfirm, AskPassword] s1)
            | Confirm False # rest \<Rightarrow>
                (Some (Inl (UserExitError ''User chose not to provide new API key'')),
                 emit [AskConfirm] s1)
            | _ \<Rightarrow> (None, emit [AskConfirm] s1))
         else (Some (Inl (Error n m)), s1))"
  by (subst analyzeRepository.simps) (simp add: assms)

lemma handleAnalysis_thrown:
  assumes "getGeminiConfig e = Inr config" and "ensureOutputDir e = None"
    and "analyzeRepository e config answers s = (Some (Inl error), s2)"
  shows "handleAnalysis e answers port s = (Some (ProcessExit (exitCode error)), s2)"
  using assms by (simp add: handleAnalysis_def)

lemma stubEnv_rate_limit_try:
  assumes "type (parseGeminiError m) = rate_limit"
  shows "analyzeTry (stubEnv (\<lambda>n. Inl (Error ''Error'' m))) stubConfig s
     = (Inl (Error ''Error'' m),
        s\<lparr> calls := calls s + 2, trace := trace s @ [GatewayCall, Sleep 2000, GatewayCall] \<rparr>)"
proof -
  have "generateWithRetry (\<lambda>prompt n. Inl (Error ''Error'' m))
          (createAnalysisPrompt [] stubConfig) s
        = (Inl (Error ''Error'' m),
           s\<lparr> calls := calls s + 2, trace := trace s @ [GatewayCall, Sleep 2000, GatewayCall] \<rparr>)"
    by (rule generateWithRetry_rate_limit_twice[where errA = "Error ''Error'' m"])
       (simp_all add: assms)
  then show ?thesis
    by (simp add: analyzeTry_def stubEnv_def scanRepository_Nil)
qed

lemma stubEnv_other_try:
  assumes "type (parseGeminiError m) \<noteq> rate_limit"
  shows "analyzeTry (stubEnv (\<lambda>n. Inl (Error ''Error'' m))) stubConfig s
     = (Inl (Error ''Error'' m), s\<lparr> calls := calls s + 1, trace := trace s @ [GatewayCall] \<rparr>)"
proof -
  have "generateWithRetry (\<lambda>prompt n. Inl (Error ''Error'' m))
          (createAnalysisPrompt [] stubConfig) s
        = (Inl (Error ''Error'' m), s\<lparr> calls := calls s + 1, trace := trace s @ [GatewayCall] \<rparr>)"
    by (rule generateWithRetry_first_other) (simp_all add: assms)
  then show ?thesis
    by (simp add: analyzeTry_def stubEnv_def scanRepository_Nil)
qed

lemma waitTime_429: "waitTime (parseGeminiError ''429 rate_limit_exceeded'') = 60"
  using retryAfter_not_quota[of "''429 rate_limit_exceeded''"]
  by (simp add: type_429 waitTime_def)

lemma stubEnv_fields:
  "getGeminiConfig (stubEnv script) = Inr stubConfig" "ensureOutputDir (stubEnv script) = None"
  by (simp_all add: stubEnv_def)

text \<open>
  Claim C3. When the scan succeeds and the first call of the Gateway fails with an error
  classified \<open>content_too_large\<close>, \<open>model_unavailable\<close> or \<open>unknown\<close>, the run throws that
  error after this one call: the session gains one Gateway call, no wait and no
  question, whatever the user would have answered. The top level then exits with status 1
  (the error not being named \<open>UserExitError\<close>).
\<close>

theorem fatal_kinds_fail_at_once:
  assumes scan: "scanRepository (allFiles e) = Inr files"
    and fail: "gateway e config (createAnalysisPrompt files config) (calls s) = Inl (Error n m)"
    and kind: "type (parseGeminiError m) \<in> {content_too_large, model_unavailable, unknown}"
  shows "analyzeRepository e config answers s
           = (Some (Inl (Error n m)), s\<lparr> calls := calls s + 1, trace := trace s @ [GatewayCall] \<rparr>)
         \<and> (getGeminiConfig e = Inr config \<and> ensureOutputDir e = None \<and> n \<noteq> ''UserExitError'' \<longrightarrow>
              handleAnalysis e answers port s
                = (Some (ProcessExit 1),
                   s\<lparr> calls := calls s + 1, trace := trace s @ [GatewayCall] \<rparr>))"
proof -
  let ?s1 = "s\<lparr> calls := calls s + 1, trace := trace s @ [GatewayCall] \<rparr>"
  from kind have nr: "type (parseGeminiError m) \<noteq> rate_limit"
    and nq: "type (parseGeminiError m) \<noteq> quota_exceeded"
    and nk: "type (parseGeminiError m) \<noteq> invalid_key"
    by auto
  have "generateWithRetry (gateway e config) (createAnalysisPrompt files config) s
          = (Inl (Error n m), ?s1)"
    using fail nr by (intro generateWithRetry_first_other) simp_all
  then have t: "analyzeTry e config s = (Inl (Error n m), ?s1)"
    using scan by (rule analyzeTry_gateway_error[rotated])
  have a: "analyzeRepository e config answers s = (Some (Inl (Error n m)), ?s1)"
    by (subst analyzeRepository.simps) (simp add: t Let_def nr nq nk)
  show ?thesis
    by (simp add: a handleAnalysis_def exitCode_def)
qed


theorem fatal_kinds_fail_at_once_witness:
  "scanRepository (allFiles (stubEnv (\<lambda>n. Inl (Error ''Error'' ''400 Bad Request'')))) = Inr []
   \<and> gateway (stubEnv (\<lambda>n. Inl (Error ''Error'' ''400 Bad Request''))) stubConfig
        (createAnalysisPrompt [] stubConfig) (calls freshSession)
       = Inl (Error ''Error'' ''400 Bad Request'')
   \<and> type (parseGeminiError ''400 Bad Request'') \<in> {content_too_large, model_unavailable, unknown}
   \<and> analyzeRepository (stubEnv (\<lambda>n. Inl (Error ''Error'' ''400 Bad Request''))) stubConfig
        [Action retry, Action fallback] freshSession
       = (Some (Inl (Error ''Error'' ''400 Bad Request'')), \<lparr> calls = 1, trace = [GatewayCall] \<rparr>)
   \<and> handleAnalysis (stubEnv (\<lambda>n. Inl (Error ''Error'' ''400 Bad Request'')))
        [Action retry, Action fallback] 2000 freshSession
       = (Some (ProcessExit 1), \<lparr> calls = 1, trace = [GatewayCall] \<rparr>)"
proof -
  let ?e = "stubEnv (\<lambda>n. Inl (Error ''Error'' ''400 Bad Request''))"
  have h1: "scanRepository (allFiles ?e) = Inr []"
    by (simp add: stubEnv_def scanRepository_Nil)
  have h2: "gateway ?e stubConfig (createAnalysisPrompt [] stubConfig) (calls freshSession)
              = Inl (Error ''Error'' ''400 Bad Request'')"
    by (simp add: stubEnv_def)
  have h3: "type (parseGeminiError ''400 Bad Request'') \<in> {content_too_large, model_unavailable, unknown}"
    by (simp add: type_400)
  have h4: "getGeminiConfig ?e = Inr stubConfig \<and> ensureOutputDir ?e = None
            \<and> ''Error'' \<noteq> ''UserExitError''"
    by (simp add: stubEnv_def)
  show ?thesis
    using h1 h2 h3 h4
      fatal_kinds_fail_at_once[OF h1 h2 h3, of "[Action retry, Action fallback]" 2000]
    by (simp add: freshSession_def)
qed

text \<open>
  Claim C4. When the \<open>try\<close> block has thrown a quota or rate-limit error and the user
  answers \<open>exit\<close>, or it has thrown an invalid-key error and the user declines a new key,
  \<open>analyzeRepository\<close> throws a \<open>UserExitError\<close> and \<open>handleAnalysis\<close> exits with status 0. A
  retry, and a retry with a new key, return whatever the inner call returns or throws, so
  an exit chosen later reaches the top as well. Whatever \<open>analyzeRepository\<close> throws, the
  status is 0 exactly for an \<open>Error\<close> named \<open>UserExitError\<close> and 1 for everything else.
\<close>

theorem user_exit_is_clean:
  "(getGeminiConfig e = Inr config \<and> ensureOutputDir e = None
      \<and> analyzeTry e config s = (Inl (Error n m), s')
      \<and> type (parseGeminiError m) \<in> {quota_exceeded, rate_limit}
    \<longrightarrow> analyzeRepository e config (Action exit # rest) s
          = (Some (Inl (UserExitError ''User chose to exit'')), emit [AskAction] s')
        \<and> handleAnalysis e (Action exit # rest) port s = (Some (ProcessExit 0), emit [AskAction] s')
        \<and> analyzeRepository e config (Action retry # rest) s
          = analyzeRepository e config rest
              (emit (AskAction # replicate (waitTime (parseGeminiError m)) (Sleep 1000)) s'))
   \<and> (getGeminiConfig e = Inr config \<and> ensureOutputDir e = None
      \<and> analyzeTry e config s = (Inl (Error n m), s')
      \<and> type (parseGeminiError m) = invalid_key
    \<longrightarrow> analyzeRepository e config (Confirm False # rest) s
          = (Some (Inl (UserExitError ''User chose not to provide new API key'')),
             emit [AskConfirm] s')
        \<and> handleAnalysis e (Confirm False # rest) port s
          = (Some (ProcessExit 0), emit [AskConfirm] s')
        \<and> analyzeRepository e config (Confirm True # Password key # rest) s
          = analyzeRepository e (config\<lparr> apiKey := key \<rparr>) rest
              (emit [AskConfirm, AskPassword] s'))
   \<and> (getGeminiConfig e = Inr config \<and> ensureOutputDir e = None
      \<and> analyzeRepository e config answers s = (Some (Inl error), s'')
    \<longrightarrow> handleAnalysis e answers port s
          = (Some (ProcessExit
               (if instanceofError error \<and> errorName error = ''UserExitError'' then 0 else 1)), s''))"
proof (intro conjI; rule impI; (elim conjE)?)
  assume c: "getGeminiConfig e = Inr config" "ensureOutputDir e = None"
    and t: "analyzeTry e config s = (Inl (Error n m), s')"
    and k: "type (parseGeminiError m) \<in> {quota_exceeded, rate_limit}"
  from k have k': "type (parseGeminiError m) = quota_exceeded \<or> type (parseGeminiError m) = rate_limit"
    by simp
  have a: "analyzeRepository e config (Action exit # rest) s
          = (Some (Inl (UserExitError ''User chose to exit'')), emit [AskAction] s')"
    using k' by (simp add: analyzeRepository_catch[OF t] Let_def)
  have h: "handleAnalysis e (Action exit # rest) port s = (Some (ProcessExit 0), emit [AskAction] s')"
    using handleAnalysis_thrown[OF c a] by (simp add: exitCode_def)
  have r: "analyzeRepository e config (Action retry # rest) s
          = analyzeRepository e config rest
              (emit (AskAction # replicate (waitTime (parseGeminiError m)) (Sleep 1000)) s')"
    using k' by (simp add: analyzeRepository_catch[OF t] Let_def)
  from a h r show "analyzeRepository e config (Action exit # rest) s
          = (Some (Inl (UserExitError ''User chose to exit'')), emit [AskAction] s')
        \<and> handleAnalysis e (Action exit # rest) port s = (Some (ProcessExit 0), emit [AskAction] s')
        \<and> analyzeRepository e config (Action retry # rest) s
          = analyzeRepository e config rest
              (emit (AskAction # replicate (waitTime (parseGeminiError m)) (Sleep 1000)) s')"
    by simp
next
  assume c: "getGeminiConfig e = Inr config" "ensureOutputDir e = None"
    and t: "analyzeTry e config s = (Inl (Error n m), s')"
    and k: "type (parseGeminiError m) = invalid_key"
  have a: "analyzeRepository e config (Confirm False # rest) s
          = (Some (Inl (UserExitError ''User chose not to provide new API key'')),
             emit [AskConfirm] s')"
    using k by (simp add: analyzeRepository_catch[OF t] Let_def)
  have h: "handleAnalysis e (Confirm False # rest) port s
          = (Some (ProcessExit 0), emit [AskConfirm] s')"
    using handleAnalysis_thrown[OF c a] by (simp add: exitCode_def)
  have r: "analyzeRepository e config (Confirm True # Password key # rest) s
          = analyzeRepository e (config\<lparr> apiKey := key \<rparr>) rest
              (emit [AskConfirm, AskPassword] s')"
    using k by (simp add: analyzeRepository_catch[OF t] Let_def)
  from a h r show "analyzeRepository e config (Confirm False # rest) s
          = (Some (Inl (UserExitError ''User chose not to provide new API key'')),
             emit [AskConfirm] s')
        \<and> handleAnalysis e (Confirm False # rest) port s
          = (Some (ProcessExit 0), emit [AskConfirm] s')
        \<and> analyzeRepository e config (Confirm True # Password key # rest) s
          = analyzeRepository e (config\<lparr> apiKey := key \<rparr>) rest
              (emit [AskConfirm, AskPassword] s')"
    by simp
next
  assume c: "getGeminiConfig e = Inr config" "ensureOutputDir e = None"
    and a: "analyzeRepository e config answers s = (Some (Inl error), s'')"
  show "handleAnalysis e answers port s
          = (Some (ProcessExit
               (if instanceofError error \<and> errorName error = ''UserExitError'' then 0 else 1)), s'')"
    using handleAnalysis_thrown[OF c a] by (simp add: exitCode_def)
qed

theorem user_exit_is_clean_witness:
  "analyzeTry (stubEnv (\<lambda>n. Inl (Error ''Error'' ''429 rate_limit_exceeded''))) stubConfig freshSession
     = (Inl (Error ''Error'' ''429 rate_limit_exceeded''),
        \<lparr> calls = 2, trace = [GatewayCall, Sleep 2000, GatewayCall] \<rparr>)
   \<and> type (parseGeminiError ''429 rate_limit_exceeded'') \<in> {quota_exceeded, rate_limit}
   \<and> handleAnalysis (stubEnv (\<lambda>n. Inl (Error ''Error'' ''429 rate_limit_exceeded'')))
        [Action exit] 2000 freshSession
       = (Some (ProcessExit 0),
          \<lparr> calls = 2, trace = [GatewayCall, Sleep 2000, GatewayCall, AskAction] \<rparr>)
   \<and> analyzeRepository (stubEnv (\<lambda>n. Inl (Error ''Error'' ''429 rate_limit_exceeded''))) stubConfig
        [Action retry, Action exit] freshSession
       = (Some (Inl (UserExitError ''User chose to exit'')),
          \<lparr> calls = 4,
            trace = [GatewayCall, Sleep 2000, GatewayCall, AskAction] @ replicate 60 (Sleep 1000)
                    @ [GatewayCall, Sleep 2000, GatewayCall, AskAction] \<rparr>)
   \<and> handleAnalysis (stubEnv (\<lambda>n. Inl (Error ''Error'' ''429 rate_limit_exceeded'')))
        [Action retry, Action exit] 2000 freshSession
       = (Some (ProcessExit 0),
          \<lparr> calls = 4,
            trace = [GatewayCall, Sleep 2000, GatewayCall, AskAction] @ replicate 60 (Sleep 1000)
                    @ [GatewayCall, Sleep 2000, GatewayCall, AskAction] \<rparr>)
   \<and> analyzeTry (stubEnv (\<lambda>n. Inl (Error ''Error'' ''401 Unauthorized''))) stubConfig freshSession
       = (Inl (Error ''Error'' ''401 Unauthorized''), \<lparr> calls = 1, trace = [GatewayCall] \<rparr>)
   \<and> type (parseGeminiError ''401 Unauthorized'') = invalid_key
   \<and> handleAnalysis (stubEnv (\<lambda>n. Inl (Error ''Error'' ''401 Unauthorized'')))
        [Confirm False] 2000 freshSession
       = (Some (ProcessExit 0), \<lparr> calls = 1, trace = [GatewayCall, AskConfirm] \<rparr>)
   \<and> analyzeRepository (stubEnv (\<lambda>n. Inl (Error ''Error'' ''400 Bad Request''))) stubConfig
        [Action exit] freshSession
       = (Some (Inl (Error ''Error'' ''400 Bad Request'')), \<lparr> calls = 1, trace = [GatewayCall] \<rparr>)
   \<and> handleAnalysis (stubEnv (\<lambda>n. Inl (Error ''Error'' ''400 Bad Request'')))
        [Action exit] 2000 freshSession
       = (Some (ProcessExit 1), \<lparr> calls = 1, trace = [GatewayCall] \<rparr>)"
proof -
  let ?rl = "stubEnv (\<lambda>n. Inl (Error ''Error'' ''429 rate_limit_exceeded''))"
  let ?key = "stubEnv (\<lambda>n. Inl (Error ''Error'' ''401 Unauthorized''))"
  let ?bad = "stubEnv (\<lambda>n. Inl (Error ''Error'' ''400 Bad Request''))"
  let ?s1 = "\<lparr> calls = 2, trace = [GatewayCall, Sleep 2000, GatewayCall] \<rparr>"
  let ?s2 = "emit (AskAction # replicate 60 (Sleep 1000)) ?s1"
  let ?s3 = "?s2\<lparr> calls := calls ?s2 + 2, trace := trace ?s2 @ [GatewayCall, Sleep 2000, GatewayCall] \<rparr>"
  have k: "type (parseGeminiError ''429 rate_limit_exceeded'') \<in> {quota_exceeded, rate_limit}"
    by (simp add: type_429)
  have t1: "analyzeTry ?rl stubConfig freshSession = (Inl (Error ''Error'' ''429 rate_limit_exceeded''), ?s1)"
    by (simp add: stubEnv_rate_limit_try[OF type_429] freshSession_def)
  have t2: "analyzeTry ?rl stubConfig ?s2 = (Inl (Error ''Error'' ''429 rate_limit_exceeded''), ?s3)"
    by (rule stubEnv_rate_limit_try[OF type_429])
  have t3: "analyzeTry ?key stubConfig freshSession
              = (Inl (Error ''Error'' ''401 Unauthorized''), \<lparr> calls = 1, trace = [GatewayCall] \<rparr>)"
    by (simp add: stubEnv_other_try type_401 freshSession_def)
  have t4: "analyzeTry ?bad stubConfig freshSession
              = (Inl (Error ''Error'' ''400 Bad Request''), \<lparr> calls = 1, trace = [GatewayCall] \<rparr>)"
    by (simp add: stubEnv_other_try type_400 freshSession_def)
  have a1: "handleAnalysis ?rl [Action exit] 2000 freshSession
       = (Some (ProcessExit 0),
          \<lparr> calls = 2, trace = [GatewayCall, Sleep 2000, GatewayCall, AskAction] \<rparr>)"
    using user_exit_is_clean
      [of ?rl stubConfig freshSession "''Error''" "''429 rate_limit_exceeded''" ?s1 "[]" 2000]
      t1
    by (simp add: stubEnv_fields emit_def type_429)
  have r1: "analyzeRepository ?rl stubConfig [Action retry, Action exit] freshSession
       = analyzeRepository ?rl stubConfig [Action exit] ?s2"
    using user_exit_is_clean
      [of ?rl stubConfig freshSession "''Error''" "''429 rate_limit_exceeded''" ?s1 "[Action exit]" 2000]
      t1
    by (simp add: stubEnv_fields type_429 waitTime_429)
  have r2: "analyzeRepository ?rl stubConfig [Action exit] ?s2
       = (Some (Inl (UserExitError ''User chose to exit'')), emit [AskAction] ?s3)"
    using user_exit_is_clean
      [of ?rl stubConfig ?s2 "''Error''" "''429 rate_limit_exceeded''" ?s3 "[]" 2000]
      t2
    by (simp add: stubEnv_fields type_429)
  have a2: "analyzeRepository ?rl stubConfig [Action retry, Action exit] freshSession
       = (Some (Inl (UserExitError ''User chose to exit'')),
          \<lparr> calls = 4,
            trace = [GatewayCall, Sleep 2000, GatewayCall, AskAction] @ replicate 60 (Sleep 1000)
                    @ [GatewayCall, Sleep 2000, GatewayCall, AskAction] \<rparr>)"
    unfolding r1 r2 by (simp add: emit_def)
  have a3: "handleAnalysis ?rl [Action retry, Action exit] 2000 freshSession
       = (Some (ProcessExit 0),
          \<lparr> calls = 4,
            trace = [GatewayCall, Sleep 2000, GatewayCall, AskAction] @ replicate 60 (Sleep 1000)
                    @ [GatewayCall, Sleep 2000, GatewayCall, AskAction] \<rparr>)"
    using user_exit_is_clean
      [where e = ?rl and config = stubConfig and s = freshSession and port = 2000
         and answers = "[Action retry, Action exit]"
         and error = "UserExitError ''User chose to exit''"] a2
    by (simp add: stubEnv_fields)
  have a4: "handleAnalysis ?key [Confirm False] 2000 freshSession
       = (Some (ProcessExit 0), \<lparr> calls = 1, trace = [GatewayCall, AskConfirm] \<rparr>)"
    using user_exit_is_clean
      [of ?key stubConfig freshSession "''Error''" "''401 Unauthorized''"
          "\<lparr> calls = 1, trace = [GatewayCall] \<rparr>" "[]" 2000]
      t3
    by (simp add: stubEnv_fields emit_def type_401)
  have a5: "analyzeRepository ?bad stubConfig [Action exit] freshSession
       = (Some (Inl (Error ''Error'' ''400 Bad Request'')), \<lparr> calls = 1, trace = [GatewayCall] \<rparr>)"
    by (simp add: analyzeRepository_catch[OF t4] type_400)
  have a6: "handleAnalysis ?bad [Action exit] 2000 freshSession
       = (Some (ProcessExit 1), \<lparr> calls = 1, trace = [GatewayCall] \<rparr>)"
    using user_exit_is_clean
      [where e = ?bad and config = stubConfig and s = freshSession and port = 2000
         and answers = "[Action exit]" and error = "Error ''Error'' ''400 Bad Request''"] a5
    by (simp add: stubEnv_fields)
  show ?thesis
    using t1 k a1 a2 a3 t3 type_401 a4 a5 a6 by blast
qed

text \<open>
  Claim C10. A classification of any kind but \<open>quota_exceeded\<close> carries no \<open>retryAfter\<close>, so
  its wait is the default of 60 seconds; and after a rate-limit failure the retry
  chosen by the user counts down 60 waits of one second before the run starts again.
\<close>

theorem retryAfter_only_quota:
  "(type (parseGeminiError msg) \<noteq> quota_exceeded \<longrightarrow>
      retryAfter (parseGeminiError msg) = None \<and> waitTime (parseGeminiError msg) = 60)
   \<and> (analyzeTry e config s = (Inl (Error n msg), s') \<and> type (parseGeminiError msg) = rate_limit \<longrightarrow>
        analyzeRepository e config (Action retry # rest) s
          = analyzeRepository e config rest (emit (AskAction # replicate 60 (Sleep 1000)) s'))"
proof (rule conjI; rule impI)
  assume "type (parseGeminiError msg) \<noteq> quota_exceeded"
  then have "retryAfter (parseGeminiError msg) = None"
    by (rule retryAfter_not_quota)
  then show "retryAfter (parseGeminiError msg) = None \<and> waitTime (parseGeminiError msg) = 60"
    by (simp add: waitTime_def)
next
  assume a: "analyzeTry e config s = (Inl (Error n msg), s') \<and> type (parseGeminiError msg) = rate_limit"
  then have "retryAfter (parseGeminiError msg) = None"
    by (simp add: retryAfter_not_quota)
  then have w: "waitTime (parseGeminiError msg) = 60"
    by (simp add: waitTime_def)
  from a have t: "analyzeTry e config s = (Inl (Error n msg), s')"
    by simp
  show "analyzeRepository e config (Action retry # rest) s
          = analyzeRepository e config rest (emit (AskAction # replicate 60 (Sleep 1000)) s')"
    using a by (simp add: analyzeRepository_catch[OF t] w)
qed

theorem retryAfter_only_quota_witness:
  \<open>type (parseGeminiError ''429 rate_limit_exceeded retryDelay: "30s"'') \<noteq> quota_exceeded
   \<and> type (parseGeminiError ''429 rate_limit_exceeded retryDelay: "30s"'') = rate_limit
   \<and> retryAfter (parseGeminiError ''429 rate_limit_exceeded retryDelay: "30s"'') = None
   \<and> waitTime (parseGeminiError ''429 rate_limit_exceeded retryDelay: "30s"'') = 60
   \<and> analyzeTry (stubEnv (\<lambda>n. Inl (Error ''Error'' ''429 rate_limit_exceeded retryDelay: "30s"'')))
        stubConfig freshSession
       = (Inl (Error ''Error'' ''429 rate_limit_exceeded retryDelay: "30s"''),
          \<lparr> calls = 2, trace = [GatewayCall, Sleep 2000, GatewayCall] \<rparr>)
   \<and> analyzeRepository
        (stubEnv (\<lambda>n. Inl (Error ''Error'' ''429 rate_limit_exceeded retryDelay: "30s"'')))
        stubConfig [Action retry] freshSession
       = (None,
          \<lparr> calls = 4,
            trace = [GatewayCall, Sleep 2000, GatewayCall, AskAction] @ replicate 60 (Sleep 1000)
                    @ [GatewayCall, Sleep 2000, GatewayCall, AskAction] \<rparr>)\<close>
proof -
  let ?m = \<open>''429 rate_limit_exceeded retryDelay: "30s"''\<close>
  let ?e = "stubEnv (\<lambda>n. Inl (Error ''Error'' ?m))"
  let ?s1 = "\<lparr> calls = 2, trace = [GatewayCall, Sleep 2000, GatewayCall] \<rparr>"
  let ?s2 = "emit (AskAction # replicate 60 (Sleep 1000)) ?s1"
  have ty: "type (parseGeminiError ?m) = rate_limit"
    by code_simp
  have t1: "analyzeTry ?e stubConfig freshSession = (Inl (Error ''Error'' ?m), ?s1)"
    by (simp add: stubEnv_rate_limit_try[OF ty] freshSession_def)
  note t2 = stubEnv_rate_limit_try[OF ty, of ?s2]
  have c1: "retryAfter (parseGeminiError ?m) = None \<and> waitTime (parseGeminiError ?m) = 60"
    using retryAfter_only_quota[of ?m] by (simp add: ty)
  have c2: "analyzeRepository ?e stubConfig [Action retry] freshSession
              = analyzeRepository ?e stubConfig [] ?s2"
    using retryAfter_only_quota[of ?m ?e stubConfig freshSession "''Error''" ?s1 "[]"] t1 ty
    by simp
  have c3: "analyzeRepository ?e stubConfig [] ?s2
              = (None,
          \<lparr> calls = 4,
            trace = [GatewayCall, Sleep 2000, GatewayCall, AskAction] @ replicate 60 (Sleep 1000)
                    @ [GatewayCall, Sleep 2000, GatewayCall, AskAction] \<rparr>)"
    by (subst analyzeRepository_catch[OF t2]) (simp add: ty emit_def)
  show ?thesis
    using ty t1 c1 c2 c3 by simp
qed

text \<open>
  The third answer of the menu. When the \<open>try\<close> block has thrown a quota or rate-limit
  error and the user chooses the basic analysis, the run ends with what \<open>analyzeFallback\<close> returns or throws,
  and the Gateway is not called again.
\<close>

theorem fallback_ends_the_run:
  assumes "analyzeTry e config s = (Inl (Error n m), s')"
    and "type (parseGeminiError m) = quota_exceeded \<or> type (parseGeminiError m) = rate_limit"
  shows "analyzeRepository e config (Action fallback # rest) s
           = (Some (analyzeFallback e), s'\<lparr> trace := trace s' @ [AskAction] \<rparr>)
         \<and> calls (snd (analyzeRepository e config (Action fallback # rest) s)) = calls s'"
  using assms(2) by (auto simp: analyzeRepository_catch[OF assms(1)] emit_def)

theorem fallback_ends_the_run_witness:
  "analyzeTry (stubEnv (\<lambda>n. Inl (Error ''Error'' ''429 rate_limit_exceeded''))) stubConfig freshSession
     = (Inl (Error ''Error'' ''429 rate_limit_exceeded''),
        \<lparr> calls = 2, trace = [GatewayCall, Sleep 2000, GatewayCall] \<rparr>)
   \<and> type (parseGeminiError ''429 rate_limit_exceeded'') = rate_limit
   \<and> analyzeRepository (stubEnv (\<lambda>n. Inl (Error ''Error'' ''429 rate_limit_exceeded''))) stubConfig
        [Action fallback] freshSession
       = (Some (Inr \<lparr> geminiSummary = ''basic analysis'', totalFiles = 0,
                       modelUsed = ''fallback-analyzer'' \<rparr>),
          \<lparr> calls = 2, trace = [GatewayCall, Sleep 2000, GatewayCall, AskAction] \<rparr>)"
proof -
  have t: "analyzeTry (stubEnv (\<lambda>n. Inl (Error ''Error'' ''429 rate_limit_exceeded''))) stubConfig
             freshSession
           = (Inl (Error ''Error'' ''429 rate_limit_exceeded''),
              \<lparr> calls = 2, trace = [GatewayCall, Sleep 2000, GatewayCall] \<rparr>)"
    by (simp add: stubEnv_rate_limit_try[OF type_429] freshSession_def)
  have k: "type (parseGeminiError ''429 rate_limit_exceeded'') = quota_exceeded
           \<or> type (parseGeminiError ''429 rate_limit_exceeded'') = rate_limit"
    by (simp add: type_429)
  show ?thesis
    using t type_429 fallback_ends_the_run[OF t k, of "[]"]
    by (simp add: stubEnv_def)
qed

end
